theory Spec2Isabelle
  imports Main
begin

section \<open>Values of the Python library that the job handles\<close>

text \<open>
  The job (\<^verbatim>\<open>auto_update.py\<close>) reads the Jakarta wall clock, asks a market-data provider
  for daily bars, and reads and writes three tables of a remote store. The definitions of
  this section model the library values it touches: calendar dates, times of day and
  their ISO renderings, as CPython's \<^verbatim>\<open>datetime\<close> module computes them.
\<close>

record pydate =
  year :: nat
  month :: nat
  day :: nat

record pytime =
  hour :: nat
  minute :: nat
  second :: nat
  microsecond :: nat

text \<open>A timestamp of the zone Asia/Jakarta (\<^verbatim>\<open>datetime.now(ID_TZ)\<close>): a date and a time of day.\<close>

record datetime =
  dt_date :: pydate
  dt_time :: pytime

text \<open>\<^verbatim>\<open>time(h, m)\<close>: seconds and microseconds default to zero.\<close>

definition mk_time :: "nat \<Rightarrow> nat \<Rightarrow> pytime" where
  "mk_time h m = \<lparr>hour = h, minute = m, second = 0, microsecond = 0\<rparr>"

text \<open>
  \<^verbatim>\<open>a <= b\<close> on naive \<^verbatim>\<open>time\<close> objects compares the tuples
  (hour, minute, second, microsecond) lexicographically.
\<close>

definition time_le :: "pytime \<Rightarrow> pytime \<Rightarrow> bool" where
  "time_le a b =
     (hour a < hour b \<or> (hour a = hour b \<and>
       (minute a < minute b \<or> (minute a = minute b \<and>
         (second a < second b \<or> (second a = second b \<and>
           microsecond a \<le> microsecond b))))))"

text \<open>The proleptic Gregorian ordinal of a date and its weekday, Monday being 0.\<close>

definition is_leap :: "nat \<Rightarrow> bool" where
  "is_leap y = (y mod 4 = 0 \<and> (y mod 100 \<noteq> 0 \<or> y mod 400 = 0))"

definition days_before_year :: "nat \<Rightarrow> nat" where
  "days_before_year y = (let p = y - 1 in p * 365 + p div 4 + p div 400 - p div 100)"

definition days_before_month :: "nat \<Rightarrow> nat \<Rightarrow> nat" where
  "days_before_month y m =
     (if m \<le> 1 then 0 else if m = 2 then 31 else
      (if is_leap y then 1 else 0) +
      (if m = 3 then 59 else if m = 4 then 90 else if m = 5 then 120
       else if m = 6 then 151 else if m = 7 then 181 else if m = 8 then 212
       else if m = 9 then 243 else if m = 10 then 273 else if m = 11 then 304 else 334))"

definition toordinal :: "pydate \<Rightarrow> nat" where
  "toordinal d = days_before_year (year d) + days_before_month (year d) (month d) + day d"

definition weekday :: "pydate \<Rightarrow> nat" where
  "weekday d = (toordinal d + 6) mod 7"

text \<open>Decimal digits, padded with zeros on the left to a given width (\<^verbatim>\<open>%04d\<close>, \<^verbatim>\<open>%02d\<close>).\<close>

definition digit :: "nat \<Rightarrow> char" where
  "digit n = ''0123456789'' ! (n mod 10)"

fun decimal :: "nat \<Rightarrow> string" where
  "decimal n = (if n < 10 then [digit n] else decimal (n div 10) @ [digit n])"

declare decimal.simps [simp del]

definition zero_pad :: "nat \<Rightarrow> nat \<Rightarrow> string" where
  "zero_pad width n = replicate (width - length (decimal n)) (CHR ''0'') @ decimal n"

text \<open>\<^verbatim>\<open>date.isoformat()\<close>: YYYY-MM-DD.\<close>

definition date_isoformat :: "pydate \<Rightarrow> string" where
  "date_isoformat d =
     zero_pad 4 (year d) @ ''-'' @ zero_pad 2 (month d) @ ''-'' @ zero_pad 2 (day d)"

text \<open>
  \<^verbatim>\<open>datetime.isoformat()\<close> of a Jakarta timestamp: date, \<^verbatim>\<open>T\<close>, time of day, the
  microseconds when they are not zero, and the zone's offset from UTC, seven hours.
\<close>

definition isoformat :: "datetime \<Rightarrow> string" where
  "isoformat t =
     date_isoformat (dt_date t) @ ''T'' @
     zero_pad 2 (hour (dt_time t)) @ '':'' @ zero_pad 2 (minute (dt_time t)) @ '':'' @
     zero_pad 2 (second (dt_time t)) @
     (if microsecond (dt_time t) = 0 then [] else ''.'' @ zero_pad 6 (microsecond (dt_time t))) @
     ''+07:00''"

section \<open>The market-hours classifier\<close>

definition is_market_hours :: "datetime \<Rightarrow> bool" where
  "is_market_hours now_jkt =
     (if weekday (dt_date now_jkt) \<ge> 5 then False
      else (let start = mk_time 9 0; end = mk_time 15 30
            in time_le start (dt_time now_jkt) \<and> time_le (dt_time now_jkt) end))"

text \<open>The time of day as microseconds since midnight.\<close>

definition micros_of_day :: "pytime \<Rightarrow> nat" where
  "micros_of_day t = ((hour t * 60 + minute t) * 60 + second t) * 1000000 + microsecond t"

section \<open>The store, the provider and the log\<close>

text \<open>
  Exceptions are values: a call returns \<open>Inl e\<close> where the Python raises \<open>e\<close>, together
  with the world as the call left it, since what was written before a raise stays written.
\<close>

datatype error = RuntimeError string | StoreError | ProviderError

text \<open>A row of table \<^verbatim>\<open>saham\<close>, with the columns the job selects.\<close>

record stock =
  stock_id :: int
  kode :: "string option"
  yahoo_symbol :: "string option"
  is_tracked :: bool

text \<open>A row of table \<^verbatim>\<open>harga_saham_harian\<close>; the price is carried as the provider gave it.\<close>

record 'p harga_row =
  harga_id :: int
  saham_id :: int
  close_date :: string
  close_price :: 'p

text \<open>A row of table \<^verbatim>\<open>system_status\<close>; a column that was never written is null.\<close>

record status_row =
  status_id :: int
  last_auto_update_at :: "string option"
  last_out_of_hours_run :: "string option"

datatype status_field = Last_auto_update_at | Last_out_of_hours_run

text \<open>A row of the provider's history frame: the date of its index and its \<^verbatim>\<open>Close\<close>.\<close>

record 'p bar =
  bar_date :: pydate
  bar_close :: 'p

text \<open>The dictionary that \<^verbatim>\<open>fetch_price\<close> returns.\<close>

record 'p price =
  date :: string
  close :: 'p

text \<open>
  The provider: what \<^verbatim>\<open>yf.Ticker(symbol).history(period, interval)\<close> gives for a symbol, a
  period and an interval, either an exception or the rows of the frame in the order of
  the frame.
\<close>

type_synonym 'p provider = "string \<Rightarrow> string \<Rightarrow> string \<Rightarrow> error + 'p bar list"

text \<open>Log records: the level and the message, a message being its template and arguments.\<close>

datatype level = INFO | WARNING

datatype 'p message =
    Msg_found nat
  | Msg_yf_empty string
  | Msg_yf_failed string error
  | Msg_run_once string bool
  | Msg_start string string
  | Msg_will_fetch nat
  | Msg_skip "string option"
  | Msg_no_data string "string option"
  | Msg_saved "string option" string string 'p string
  | Msg_save_failed "string option" string error
  | Msg_status_failed error

text \<open>
  The world outside the process: the three tables, for each table the outcomes of the
  queries still to come on it (\<open>True\<close>: the query raises and changes nothing; when the list
  is used up, queries succeed), the requests the provider has received, and the log.
\<close>

record 'p world =
  saham :: "stock list"
  harga_saham_harian :: "'p harga_row list"
  system_status :: "status_row list"
  saham_faults :: "bool list"
  harga_faults :: "bool list"
  status_faults :: "bool list"
  history_calls :: "(string \<times> string \<times> string) list"
  logs :: "(level \<times> 'p message) list"

definition logging_info :: "'p message \<Rightarrow> 'p world \<Rightarrow> 'p world" where
  "logging_info m w = w\<lparr>logs := logs w @ [(INFO, m)]\<rparr>"

definition logging_warning :: "'p message \<Rightarrow> 'p world \<Rightarrow> 'p world" where
  "logging_warning m w = w\<lparr>logs := logs w @ [(WARNING, m)]\<rparr>"

text \<open>\<^verbatim>\<open>.execute()\<close>: the outcome of the next query on a table and the outcomes left.\<close>

definition execute :: "bool list \<Rightarrow> error option \<times> bool list" where
  "execute fs = (case fs of [] \<Rightarrow> (None, [])
                 | f # fs' \<Rightarrow> (if f then Some StoreError else None, fs'))"

subsection \<open>The queries of the job\<close>

text \<open>\<^verbatim>\<open>table("saham").select(...).eq("is_tracked", True)\<close>\<close>

definition select_saham_tracked :: "'p world \<Rightarrow> (error + stock list) \<times> 'p world" where
  "select_saham_tracked w =
     (case execute (saham_faults w) of
        (Some e, fs) \<Rightarrow> (Inl e, w\<lparr>saham_faults := fs\<rparr>)
      | (None, fs) \<Rightarrow> (Inr (filter is_tracked (saham w)), w\<lparr>saham_faults := fs\<rparr>))"

text \<open>
  \<^verbatim>\<open>table("harga_saham_harian").select("id").eq("saham_id", s).eq("close_date", d).limit(1)\<close>:
  the id of the first matching row in the order the store scans the table.
\<close>

definition select_harga_id :: "int \<Rightarrow> string \<Rightarrow> 'p world \<Rightarrow> (error + int list) \<times> 'p world" where
  "select_harga_id s d w =
     (case execute (harga_faults w) of
        (Some e, fs) \<Rightarrow> (Inl e, w\<lparr>harga_faults := fs\<rparr>)
      | (None, fs) \<Rightarrow>
          (Inr (take 1 (map harga_id
                  (filter (\<lambda>r. saham_id r = s \<and> close_date r = d) (harga_saham_harian w)))),
           w\<lparr>harga_faults := fs\<rparr>))"

text \<open>\<^verbatim>\<open>table("harga_saham_harian").update({"close_price": p}).eq("id", i)\<close>\<close>

definition update_harga :: "'p \<Rightarrow> int \<Rightarrow> 'p world \<Rightarrow> (error + unit) \<times> 'p world" where
  "update_harga p i w =
     (case execute (harga_faults w) of
        (Some e, fs) \<Rightarrow> (Inl e, w\<lparr>harga_faults := fs\<rparr>)
      | (None, fs) \<Rightarrow>
          (Inr (),
           w\<lparr>harga_faults := fs,
             harga_saham_harian :=
               map (\<lambda>r. if harga_id r = i then r\<lparr>close_price := p\<rparr> else r)
                 (harga_saham_harian w)\<rparr>))"

text \<open>
  \<^verbatim>\<open>table("harga_saham_harian").insert({saham_id, close_date, close_price})\<close>: the store
  gives the new row an id that no row of the table has.
\<close>

definition fresh_id :: "'p harga_row list \<Rightarrow> int" where
  "fresh_id rows = fold max (map harga_id rows) 0 + 1"

definition insert_harga :: "int \<Rightarrow> string \<Rightarrow> 'p \<Rightarrow> 'p world \<Rightarrow> (error + unit) \<times> 'p world" where
  "insert_harga s d p w =
     (case execute (harga_faults w) of
        (Some e, fs) \<Rightarrow> (Inl e, w\<lparr>harga_faults := fs\<rparr>)
      | (None, fs) \<Rightarrow>
          (Inr (),
           w\<lparr>harga_faults := fs,
             harga_saham_harian :=
               harga_saham_harian w @
                 [\<lparr>harga_id = fresh_id (harga_saham_harian w), saham_id = s,
                   close_date = d, close_price = p\<rparr>]\<rparr>))"

definition set_field :: "status_field \<Rightarrow> string \<Rightarrow> status_row \<Rightarrow> status_row" where
  "set_field f ts r =
     (case f of Last_auto_update_at \<Rightarrow> r\<lparr>last_auto_update_at := Some ts\<rparr>
      | Last_out_of_hours_run \<Rightarrow> r\<lparr>last_out_of_hours_run := Some ts\<rparr>)"

text \<open>
  \<^verbatim>\<open>table("system_status").update({field: ts}).eq("id", i)\<close>: the response carries the rows
  that were updated.
\<close>

definition update_status ::
  "status_field \<Rightarrow> string \<Rightarrow> int \<Rightarrow> 'p world \<Rightarrow> (error + status_row list) \<times> 'p world" where
  "update_status f ts i w =
     (case execute (status_faults w) of
        (Some e, fs) \<Rightarrow> (Inl e, w\<lparr>status_faults := fs\<rparr>)
      | (None, fs) \<Rightarrow>
          (Inr (map (set_field f ts) (filter (\<lambda>r. status_id r = i) (system_status w))),
           w\<lparr>status_faults := fs,
             system_status :=
               map (\<lambda>r. if status_id r = i then set_field f ts r else r) (system_status w)\<rparr>))"

text \<open>\<^verbatim>\<open>table("system_status").insert({"id": i, field: ts})\<close>: the other column stays null.\<close>

definition insert_status ::
  "int \<Rightarrow> status_field \<Rightarrow> string \<Rightarrow> 'p world \<Rightarrow> (error + unit) \<times> 'p world" where
  "insert_status i f ts w =
     (case execute (status_faults w) of
        (Some e, fs) \<Rightarrow> (Inl e, w\<lparr>status_faults := fs\<rparr>)
      | (None, fs) \<Rightarrow>
          (Inr (),
           w\<lparr>status_faults := fs,
             system_status :=
               system_status w @
                 [set_field f ts
                    \<lparr>status_id = i, last_auto_update_at = None, last_out_of_hours_run = None\<rparr>]\<rparr>))"

section \<open>The steps of the job\<close>

definition get_tracked_stocks :: "'p world \<Rightarrow> (error + stock list) \<times> 'p world" where
  "get_tracked_stocks w =
     (case select_saham_tracked w of
        (Inl e, w1) \<Rightarrow> (Inl e, w1)
      | (Inr data, w1) \<Rightarrow>
          (let stocks = filter (\<lambda>row. yahoo_symbol row \<notin> set [None, Some '''', Some ''null'']) data
           in (Inr stocks, logging_info (Msg_found (length stocks)) w1)))"

text \<open>The body of the \<^verbatim>\<open>try\<close> of \<^verbatim>\<open>fetch_price\<close>, and \<^verbatim>\<open>fetch_price\<close> with its handler.\<close>

definition fetch_price_try ::
  "'p provider \<Rightarrow> string \<Rightarrow> 'p world \<Rightarrow> (error + 'p price option) \<times> 'p world" where
  "fetch_price_try yf symbol w =
     (let w1 = w\<lparr>history_calls := history_calls w @ [(symbol, ''5d'', ''1d'')]\<rparr>
      in case yf symbol ''5d'' ''1d'' of
           Inl e \<Rightarrow> (Inl e, w1)
         | Inr hist \<Rightarrow>
             if hist = [] then (Inr None, logging_warning (Msg_yf_empty symbol) w1)
             else (let last_row = last hist;
                       date_str = date_isoformat (bar_date last_row);
                       close_price = bar_close last_row
                   in (Inr (Some \<lparr>date = date_str, close = close_price\<rparr>), w1)))"

definition fetch_price ::
  "'p provider \<Rightarrow> string \<Rightarrow> 'p world \<Rightarrow> (error + 'p price option) \<times> 'p world" where
  "fetch_price yf symbol w =
     (case fetch_price_try yf symbol w of
        (Inl e, w1) \<Rightarrow> (Inr None, logging_warning (Msg_yf_failed symbol e) w1)
      | (Inr r, w1) \<Rightarrow> (Inr r, w1))"

definition save_price_to_supabase ::
  "stock \<Rightarrow> 'p price \<Rightarrow> 'p world \<Rightarrow> (error + string) \<times> 'p world" where
  "save_price_to_supabase stock data w =
     (let saham_id = stock_id stock; close_date = date data; close_price = close data
      in case select_harga_id saham_id close_date w of
           (Inl e, w1) \<Rightarrow> (Inl e, w1)
         | (Inr existing, w1) \<Rightarrow>
             (case existing of
                first # _ \<Rightarrow>
                  (let harga_id = first
                   in case update_harga close_price harga_id w1 of
                        (Inl e, w2) \<Rightarrow> (Inl e, w2)
                      | (Inr _, w2) \<Rightarrow> (Inr ''update'', w2))
              | [] \<Rightarrow>
                  (case insert_harga saham_id close_date close_price w1 of
                     (Inl e, w2) \<Rightarrow> (Inl e, w2)
                   | (Inr _, w2) \<Rightarrow> (Inr ''insert'', w2))))"

definition update_system_status ::
  "datetime \<Rightarrow> bool \<Rightarrow> 'p world \<Rightarrow> (error + unit) \<times> 'p world" where
  "update_system_status now_jkt market_hours w =
     (let ts_iso = isoformat now_jkt;
          field = (if market_hours then Last_auto_update_at else Last_out_of_hours_run)
      in case update_status field ts_iso 1 w of
           (Inl e, w1) \<Rightarrow> (Inl e, w1)
         | (Inr data, w1) \<Rightarrow>
             if data = [] then
               (case insert_status 1 field ts_iso w1 of
                  (Inl e, w2) \<Rightarrow> (Inl e, w2)
                | (Inr _, w2) \<Rightarrow> (Inr (), w2))
             else (Inr (), w1))"

section \<open>The run\<close>

text \<open>One turn of the loop of \<^verbatim>\<open>run_once\<close> over the tracked instruments.\<close>

definition process_stock ::
  "'p provider \<Rightarrow> stock \<Rightarrow> 'p world \<Rightarrow> (error + unit) \<times> 'p world" where
  "process_stock yf stock w =
     (let kode = kode stock
      in case yahoo_symbol stock of
           None \<Rightarrow> (Inr (), logging_warning (Msg_skip kode) w)
         | Some symbol \<Rightarrow>
             if symbol = [] then (Inr (), logging_warning (Msg_skip kode) w)
             else
               (case fetch_price yf symbol w of
                  (Inl e, w1) \<Rightarrow> (Inl e, w1)
                | (Inr None, w1) \<Rightarrow> (Inr (), logging_warning (Msg_no_data symbol kode) w1)
                | (Inr (Some price), w1) \<Rightarrow>
                    (case save_price_to_supabase stock price w1 of
                       (Inl e, w2) \<Rightarrow>
                         (Inr (), logging_warning (Msg_save_failed kode symbol e) w2)
                     | (Inr action, w2) \<Rightarrow>
                         (Inr (),
                          logging_info
                            (Msg_saved kode symbol (date price) (close price) action) w2))))"

fun for_stocks :: "'p provider \<Rightarrow> stock list \<Rightarrow> 'p world \<Rightarrow> (error + unit) \<times> 'p world" where
  "for_stocks yf [] w = (Inr (), w)"
| "for_stocks yf (stock # rest) w =
     (case process_stock yf stock w of
        (Inl e, w1) \<Rightarrow> (Inl e, w1)
      | (Inr _, w1) \<Rightarrow> for_stocks yf rest w1)"

text \<open>\<^verbatim>\<open>run_once\<close>, the clock's reading \<^verbatim>\<open>datetime.now(ID_TZ)\<close> being an argument.\<close>

definition run_once :: "'p provider \<Rightarrow> datetime \<Rightarrow> 'p world \<Rightarrow> (error + unit) \<times> 'p world" where
  "run_once yf now_jkt w =
     (let market_hours = is_market_hours now_jkt;
          w1 = logging_info (Msg_run_once (isoformat now_jkt) market_hours) w;
          w2 = logging_info (Msg_start (isoformat now_jkt) (date_isoformat (dt_date now_jkt))) w1
      in case get_tracked_stocks w2 of
           (Inl e, w3) \<Rightarrow> (Inl e, w3)
         | (Inr stocks, w3) \<Rightarrow>
             (let w4 = logging_info (Msg_will_fetch (length stocks)) w3
              in case for_stocks yf stocks w4 of
                   (Inl e, w5) \<Rightarrow> (Inl e, w5)
                 | (Inr _, w5) \<Rightarrow>
                     (case update_system_status now_jkt market_hours w5 of
                        (Inl e, w6) \<Rightarrow> (Inr (), logging_warning (Msg_status_failed e) w6)
                      | (Inr _, w6) \<Rightarrow> (Inr (), w6))))"

section \<open>Start of the process\<close>

text \<open>
  The environment after \<^verbatim>\<open>load_dotenv()\<close>, as \<^verbatim>\<open>os.getenv\<close> reads it. A value is false
  for Python's \<^verbatim>\<open>not\<close> and \<^verbatim>\<open>or\<close> when the variable is unset or is the empty string.
\<close>

type_synonym environ = "string \<rightharpoonup> string"

definition falsy :: "string option \<Rightarrow> bool" where
  "falsy v = (v = None \<or> v = Some [])"

definition SUPABASE_URL :: "environ \<Rightarrow> string option" where
  "SUPABASE_URL getenv = getenv ''SUPABASE_URL''"

definition SUPABASE_KEY :: "environ \<Rightarrow> string option" where
  "SUPABASE_KEY getenv =
     (if falsy (getenv ''SUPABASE_SERVICE_ROLE_KEY'') then getenv ''SUPABASE_ANON_KEY''
      else getenv ''SUPABASE_SERVICE_ROLE_KEY'')"

text \<open>
  The statements of the module before the functions: the check of the configuration,
  and the arguments with which \<^verbatim>\<open>create_client\<close> is called when the check passes.
\<close>

definition startup :: "environ \<Rightarrow> error + string \<times> string" where
  "startup getenv =
     (if falsy (SUPABASE_URL getenv) \<or> falsy (SUPABASE_KEY getenv)
      then Inl (RuntimeError ''SUPABASE_URL / SUPABASE_SERVICE_ROLE_KEY belum di-set di .env'')
      else Inr (the (SUPABASE_URL getenv), the (SUPABASE_KEY getenv)))"

text \<open>The script run as a program: the module's statements, then \<^verbatim>\<open>run_once()\<close>.\<close>

definition auto_update ::
  "environ \<Rightarrow> 'p provider \<Rightarrow> datetime \<Rightarrow> 'p world \<Rightarrow> (error + unit) \<times> 'p world" where
  "auto_update getenv yf now_jkt w =
     (case startup getenv of
        Inl e \<Rightarrow> (Inl e, w)
      | Inr client \<Rightarrow> run_once yf now_jkt w)"

section \<open>Notions used in the statements\<close>

text \<open>A timestamp on a given date at a full second.\<close>

definition at_time :: "pydate \<Rightarrow> nat \<Rightarrow> nat \<Rightarrow> nat \<Rightarrow> datetime" where
  "at_time d h m s =
     \<lparr>dt_date = d, dt_time = \<lparr>hour = h, minute = m, second = s, microsecond = 0\<rparr>\<rparr>"

text \<open>The daily price records of an instrument on a date, in the order of the table.\<close>

definition rows_for :: "int \<Rightarrow> string \<Rightarrow> 'p harga_row list \<Rightarrow> 'p harga_row list" where
  "rows_for s d rows = filter (\<lambda>r. saham_id r = s \<and> close_date r = d) rows"

text \<open>At most one daily price record for each instrument and date.\<close>

definition one_per_pair :: "'p harga_row list \<Rightarrow> bool" where
  "one_per_pair rows = distinct (map (\<lambda>r. (saham_id r, close_date r)) rows)"

text \<open>None of the next \<open>n\<close> queries on a table raises.\<close>

definition next_ok :: "nat \<Rightarrow> bool list \<Rightarrow> bool" where
  "next_ok n fs = (True \<notin> set (take n fs))"

text \<open>The order of calendar dates, and a history frame whose rows are in that order.\<close>

definition date_le :: "pydate \<Rightarrow> pydate \<Rightarrow> bool" where
  "date_le a b =
     (year a < year b \<or> (year a = year b \<and>
       (month a < month b \<or> (month a = month b \<and> day a \<le> day b))))"

definition chronological :: "'p bar list \<Rightarrow> bool" where
  "chronological hist = sorted_wrt (\<lambda>a b. date_le (bar_date a) (bar_date b)) hist"

text \<open>The ISO form of a calendar date: four digits, two digits and two digits, with dashes.\<close>

definition is_digit :: "char \<Rightarrow> bool" where
  "is_digit c = (c \<in> set ''0123456789'')"

definition iso_date_form :: "string \<Rightarrow> bool" where
  "iso_date_form s =
     (length s = 10 \<and> s ! 4 = CHR ''-'' \<and> s ! 7 = CHR ''-'' \<and>
      list_all (\<lambda>i. is_digit (s ! i)) [0, 1, 2, 3, 5, 6, 8, 9])"

text \<open>A date that a \<^verbatim>\<open>date\<close> object can hold.\<close>

definition valid_date :: "pydate \<Rightarrow> bool" where
  "valid_date d =
     (1 \<le> year d \<and> year d \<le> 9999 \<and> 1 \<le> month d \<and> month d \<le> 12 \<and>
      1 \<le> day d \<and> day d \<le> 31)"

text \<open>
  The world in which the loop of \<^verbatim>\<open>run_once\<close> ends, when the query for the tracked
  instruments succeeds: the run up to the point where it records the status.
\<close>

definition after_loop :: "'p provider \<Rightarrow> datetime \<Rightarrow> 'p world \<Rightarrow> 'p world" where
  "after_loop yf now_jkt w =
     (let w2 = logging_info (Msg_start (isoformat now_jkt) (date_isoformat (dt_date now_jkt)))
                 (logging_info (Msg_run_once (isoformat now_jkt) (is_market_hours now_jkt)) w);
          stocks = (case fst (get_tracked_stocks w2) of Inr stocks \<Rightarrow> stocks | Inl e \<Rightarrow> [])
      in snd (for_stocks yf stocks
                (logging_info (Msg_will_fetch (length stocks)) (snd (get_tracked_stocks w2)))))"

section \<open>Example data\<close>

text \<open>A Friday and the Saturday after it.\<close>

definition friday :: pydate where
  "friday = \<lparr>year = 2024, month = 3, day = 1\<rparr>"

definition saturday :: pydate where
  "saturday = \<lparr>year = 2024, month = 3, day = 2\<rparr>"

text \<open>One tracked instrument, two prices fetched for it on the same date, and its record.\<close>

definition bbca :: stock where
  "bbca = \<lparr>stock_id = 1, kode = Some ''BBCA'', yahoo_symbol = Some ''BBCA.JK'', is_tracked = True\<rparr>"

definition price_9500 :: "int price" where
  "price_9500 = \<lparr>date = ''2024-03-01'', close = 9500\<rparr>"

definition price_9550 :: "int price" where
  "price_9550 = \<lparr>date = ''2024-03-01'', close = 9550\<rparr>"

definition row_9500 :: "int harga_row" where
  "row_9500 = \<lparr>harga_id = 1, saham_id = 1, close_date = ''2024-03-01'', close_price = 9500\<rparr>"

definition row_9400 :: "int harga_row" where
  "row_9400 = \<lparr>harga_id = 2, saham_id = 1, close_date = ''2024-03-01'', close_price = 9400\<rparr>"

text \<open>Worlds: nothing stored; one record; two records of the same instrument and date.\<close>

definition empty_world :: "int world" where
  "empty_world =
     \<lparr>saham = [], harga_saham_harian = [], system_status = [], saham_faults = [],
      harga_faults = [], status_faults = [], history_calls = [], logs = []\<rparr>"

definition world_one :: "int world" where
  "world_one = empty_world\<lparr>harga_saham_harian := [row_9500]\<rparr>"

definition world_dup :: "int world" where
  "world_dup = empty_world\<lparr>harga_saham_harian := [row_9500, row_9400]\<rparr>"

text \<open>
  A tracked instrument without a provider symbol, an instrument that is not tracked, and
  a world whose table of instruments holds them after a tracked one.
\<close>

definition unmapped :: stock where
  "unmapped = \<lparr>stock_id = 2, kode = Some ''XXXX'', yahoo_symbol = None, is_tracked = True\<rparr>"

definition untracked :: stock where
  "untracked =
     \<lparr>stock_id = 3, kode = Some ''TLKM'', yahoo_symbol = Some ''TLKM.JK'', is_tracked = False\<rparr>"

definition world_saham :: "int world" where
  "world_saham = empty_world\<lparr>saham := [bbca, unmapped, untracked]\<rparr>"

text \<open>
  A provider that has two daily bars for one symbol, one bar for a second, an empty frame
  for a third, and fails for every other symbol.
\<close>

definition bars_bbca :: "int bar list" where
  "bars_bbca =
     [\<lparr>bar_date = \<lparr>year = 2024, month = 2, day = 29\<rparr>, bar_close = 9400\<rparr>,
      \<lparr>bar_date = friday, bar_close = 9500\<rparr>]"

definition yf_example :: "int provider" where
  "yf_example symbol period interval =
     (if period = ''5d'' \<and> interval = ''1d'' then
        (if symbol = ''BBCA.JK'' then Inr bars_bbca
         else if symbol = ''BBRI.JK'' then Inr [\<lparr>bar_date = friday, bar_close = 5000\<rparr>]
         else if symbol = ''GONE.JK'' then Inr []
         else Inl ProviderError)
      else Inl ProviderError)"

text \<open>
  A status row written by an earlier run out of market hours, a world that holds it, and
  two clock readings of the Friday: one inside market hours, one after them.
\<close>

definition status_before :: status_row where
  "status_before =
     \<lparr>status_id = 1, last_auto_update_at = None,
      last_out_of_hours_run = Some ''2024-02-29T20:00:00+07:00''\<rparr>"

definition world_status :: "int world" where
  "world_status = empty_world\<lparr>system_status := [status_before]\<rparr>"

definition friday_10 :: datetime where
  "friday_10 = at_time friday 10 0 0"

definition friday_20 :: datetime where
  "friday_20 = at_time friday 20 0 0"

text \<open>Environments: complete, without the endpoint, and without any credential.\<close>

definition env_full :: environ where
  "env_full =
     [''SUPABASE_URL'' \<mapsto> ''https://example.supabase.co'',
      ''SUPABASE_ANON_KEY'' \<mapsto> ''anon-key'']"

definition env_no_url :: environ where
  "env_no_url = [''SUPABASE_SERVICE_ROLE_KEY'' \<mapsto> ''service-key'']"

definition env_no_key :: environ where
  "env_no_key =
     [''SUPABASE_URL'' \<mapsto> ''https://example.supabase.co'',
      ''SUPABASE_SERVICE_ROLE_KEY'' \<mapsto> []]"

text \<open>
  A batch of three tracked instruments, the provider failing for the second, and the
  record that the run stores for the third.
\<close>

definition nope :: stock where
  "nope = \<lparr>stock_id = 4, kode = Some ''NOPE'', yahoo_symbol = Some ''NOPE.JK'', is_tracked = True\<rparr>"

definition bbri :: stock where
  "bbri = \<lparr>stock_id = 5, kode = Some ''BBRI'', yahoo_symbol = Some ''BBRI.JK'', is_tracked = True\<rparr>"

definition batch :: "stock list" where
  "batch = [bbca, nope, bbri]"

definition row_5000 :: "int harga_row" where
  "row_5000 = \<lparr>harga_id = 2, saham_id = 5, close_date = ''2024-03-01'', close_price = 5000\<rparr>"

definition world_batch :: "int world" where
  "world_batch = empty_world\<lparr>saham := batch\<rparr>"

text \<open>The world of the batch, with the first query on the status table failing.\<close>

definition world_batch_fail :: "int world" where
  "world_batch_fail = world_batch\<lparr>status_faults := [True]\<rparr>"

text \<open>
  A world in which the first instrument of the batch already has a record for the
  Friday, with an older price.
\<close>

definition row_old :: "int harga_row" where
  "row_old = \<lparr>harga_id = 1, saham_id = 1, close_date = ''2024-03-01'', close_price = 9400\<rparr>"

definition world_old :: "int world" where
  "world_old = empty_world\<lparr>harga_saham_harian := [row_old]\<rparr>"

text \<open>The world of the batch, with the query for the tracked instruments failing.\<close>

definition world_loader_fail :: "int world" where
  "world_loader_fail = world_batch\<lparr>saham_faults := [True]\<rparr>"

section \<open>The clock\<close>

lemma lex_le:
  fixes a b x y N :: nat
  assumes "x < N" "y < N"
  shows "(a * N + x \<le> b * N + y) = (a < b \<or> (a = b \<and> x \<le> y))"
proof (cases a b rule: linorder_cases)
  case less
  then have "Suc a * N \<le> b * N" by (intro mult_le_mono1) simp
  with assms less show ?thesis by simp
next
  case equal
  then show ?thesis by simp
next
  case greater
  then have "Suc b * N \<le> a * N" by (intro mult_le_mono1) simp
  with assms greater show ?thesis by simp
qed

text \<open>On times of day whose fields are in range, the comparison of Python is the order of time.\<close>

lemma time_le_micros:
  assumes "minute a < 60" "second a < 60" "microsecond a < 1000000"
      and "minute b < 60" "second b < 60" "microsecond b < 1000000"
  shows "time_le a b \<longleftrightarrow> micros_of_day a \<le> micros_of_day b"
proof -
  define sa where "sa = second a * 1000000 + microsecond a"
  define sb where "sb = second b * 1000000 + microsecond b"
  define ma where "ma = minute a * 60000000 + sa"
  define mb where "mb = minute b * 60000000 + sb"
  have s: "sa < 60000000" "sb < 60000000"
    using assms by (simp_all add: sa_def sb_def)
  have m: "ma < 3600000000" "mb < 3600000000"
    using assms s by (simp_all add: ma_def mb_def)
  have 1: "(second a < second b \<or> (second a = second b \<and> microsecond a \<le> microsecond b)) =
           (sa \<le> sb)"
    unfolding sa_def sb_def using assms by (simp add: lex_le)
  have 2: "(minute a < minute b \<or> (minute a = minute b \<and> sa \<le> sb)) = (ma \<le> mb)"
    unfolding ma_def mb_def using s by (simp add: lex_le)
  have 3: "(hour a < hour b \<or> (hour a = hour b \<and> ma \<le> mb)) =
           (hour a * 3600000000 + ma \<le> hour b * 3600000000 + mb)"
    using m by (simp add: lex_le)
  have a: "micros_of_day a = hour a * 3600000000 + ma"
    by (simp add: micros_of_day_def ma_def sa_def algebra_simps)
  have b: "micros_of_day b = hour b * 3600000000 + mb"
    by (simp add: micros_of_day_def mb_def sb_def algebra_simps)
  show ?thesis unfolding time_le_def 1 2 3 a b ..
qed

lemma replicate_numeral: "replicate (numeral k) x = x # replicate (pred_numeral k) x"
  by (simp add: numeral_eq_Suc)

lemmas iso_defs = isoformat_def date_isoformat_def zero_pad_def decimal.simps digit_def
  replicate_numeral

lemma weekday_less_7: "weekday d < 7"
  by (simp add: weekday_def)

lemmas calendar_defs =
  weekday_def toordinal_def days_before_year_def days_before_month_def is_leap_def

lemma weekday_friday: "weekday friday = 4"
  by (simp add: friday_def calendar_defs)

lemma weekday_saturday: "weekday saturday = 5"
  by (simp add: saturday_def calendar_defs)

lemma is_market_hours_weekend:
  "weekday (dt_date t) = 5 \<or> weekday (dt_date t) = 6 \<Longrightarrow> \<not> is_market_hours t"
  by (auto simp: is_market_hours_def)

lemma is_market_hours_weekday:
  assumes "weekday (dt_date t) \<noteq> 5" "weekday (dt_date t) \<noteq> 6"
  shows "is_market_hours t \<longleftrightarrow>
           time_le (mk_time 9 0) (dt_time t) \<and> time_le (dt_time t) (mk_time 15 30)"
proof -
  have "weekday (dt_date t) < 7" by (rule weekday_less_7)
  with assms have "\<not> 5 \<le> weekday (dt_date t)" by arith
  then show ?thesis by (simp add: is_market_hours_def)
qed

lemma is_market_hours_micros:
  assumes "weekday (dt_date t) \<noteq> 5" "weekday (dt_date t) \<noteq> 6"
    and "minute (dt_time t) < 60" "second (dt_time t) < 60" "microsecond (dt_time t) < 1000000"
  shows "is_market_hours t \<longleftrightarrow>
           micros_of_day (mk_time 9 0) \<le> micros_of_day (dt_time t) \<and>
           micros_of_day (dt_time t) \<le> micros_of_day (mk_time 15 30)"
proof -
  have a: "time_le (mk_time 9 0) (dt_time t) \<longleftrightarrow>
           micros_of_day (mk_time 9 0) \<le> micros_of_day (dt_time t)"
    using assms(3-5) by (intro time_le_micros) (simp_all add: mk_time_def)
  have b: "time_le (dt_time t) (mk_time 15 30) \<longleftrightarrow>
           micros_of_day (dt_time t) \<le> micros_of_day (mk_time 15 30)"
    using assms(3-5) by (intro time_le_micros) (simp_all add: mk_time_def)
  show ?thesis using is_market_hours_weekday [OF assms(1,2)] a b by simp
qed

text \<open>
  C3. On a Saturday or a Sunday (weekday 5 or 6) the classifier answers false at every
  time of day. On the other days it answers true exactly when the time of day lies
  between 09:00 and 15:30, both ends included: true at 09:00:00 and at 15:30:00, false
  at 08:59:59 and at 15:30:01.
\<close>

theorem is_market_hours_window:
  "(weekday d = 5 \<or> weekday d = 6 \<longrightarrow> \<not> is_market_hours \<lparr>dt_date = d, dt_time = t\<rparr>) \<and>
   (weekday d \<noteq> 5 \<and> weekday d \<noteq> 6 \<and>
    minute t < 60 \<and> second t < 60 \<and> microsecond t < 1000000 \<longrightarrow>
      is_market_hours \<lparr>dt_date = d, dt_time = t\<rparr> =
        (micros_of_day (mk_time 9 0) \<le> micros_of_day t \<and>
         micros_of_day t \<le> micros_of_day (mk_time 15 30))) \<and>
   (weekday d \<noteq> 5 \<and> weekday d \<noteq> 6 \<longrightarrow>
      is_market_hours (at_time d 9 0 0) \<and> is_market_hours (at_time d 15 30 0) \<and>
      \<not> is_market_hours (at_time d 8 59 59) \<and> \<not> is_market_hours (at_time d 15 30 1))"
proof (intro conjI impI)
  assume "weekday d = 5 \<or> weekday d = 6"
  then show "\<not> is_market_hours \<lparr>dt_date = d, dt_time = t\<rparr>"
    by (intro is_market_hours_weekend) simp
next
  assume "weekday d \<noteq> 5 \<and> weekday d \<noteq> 6 \<and>
          minute t < 60 \<and> second t < 60 \<and> microsecond t < 1000000"
  then show "is_market_hours \<lparr>dt_date = d, dt_time = t\<rparr> =
        (micros_of_day (mk_time 9 0) \<le> micros_of_day t \<and>
         micros_of_day t \<le> micros_of_day (mk_time 15 30))"
    using is_market_hours_micros [of "\<lparr>dt_date = d, dt_time = t\<rparr>"] by simp
next
  assume wd: "weekday d \<noteq> 5 \<and> weekday d \<noteq> 6"
  show "is_market_hours (at_time d 9 0 0)"
    using wd is_market_hours_weekday [of "at_time d 9 0 0"]
    by (simp add: at_time_def time_le_def mk_time_def)
  show "is_market_hours (at_time d 15 30 0)"
    using wd is_market_hours_weekday [of "at_time d 15 30 0"]
    by (simp add: at_time_def time_le_def mk_time_def)
  show "\<not> is_market_hours (at_time d 8 59 59)"
    using wd is_market_hours_weekday [of "at_time d 8 59 59"]
    by (simp add: at_time_def time_le_def mk_time_def)
  show "\<not> is_market_hours (at_time d 15 30 1)"
    using wd is_market_hours_weekday [of "at_time d 15 30 1"]
    by (simp add: at_time_def time_le_def mk_time_def)
qed

theorem is_market_hours_window_witness:
  "weekday saturday = 5 \<and> weekday friday = 4 \<and>
   \<not> is_market_hours \<lparr>dt_date = saturday, dt_time = mk_time 10 0\<rparr> \<and>
   is_market_hours \<lparr>dt_date = friday, dt_time = mk_time 10 0\<rparr> \<and>
   \<not> is_market_hours \<lparr>dt_date = friday, dt_time = mk_time 16 0\<rparr> \<and>
   is_market_hours (at_time friday 9 0 0) \<and> is_market_hours (at_time friday 15 30 0) \<and>
   \<not> is_market_hours (at_time friday 8 59 59) \<and> \<not> is_market_hours (at_time friday 15 30 1)"
  using is_market_hours_window [of saturday "mk_time 10 0"]
        is_market_hours_window [of friday "mk_time 10 0"]
        is_market_hours_window [of friday "mk_time 16 0"]
  by (simp add: weekday_friday weekday_saturday mk_time_def micros_of_day_def)

section \<open>The price upsert\<close>

lemma execute_eq:
  "execute fs = (if fs \<noteq> [] \<and> hd fs then Some StoreError else None, tl fs)"
  by (cases fs) (simp_all add: execute_def)

lemma next_ok_Suc: "next_ok (Suc n) fs \<longleftrightarrow> \<not> (fs \<noteq> [] \<and> hd fs) \<and> next_ok n (tl fs)"
  by (cases fs) (auto simp: next_ok_def)

lemma next_ok_0 [simp]: "next_ok 0 fs"
  by (simp add: next_ok_def)

lemmas harga_query_defs = select_harga_id_def update_harga_def insert_harga_def execute_eq

text \<open>The upsert when no record matches and both of its queries succeed.\<close>

lemma save_price_insert:
  assumes "next_ok 2 (harga_faults w)"
    and "rows_for (stock_id stock) (date data) (harga_saham_harian w) = []"
  shows "save_price_to_supabase stock data w =
           (Inr ''insert'',
            w\<lparr>harga_faults := tl (tl (harga_faults w)),
              harga_saham_harian := harga_saham_harian w @
                [\<lparr>harga_id = fresh_id (harga_saham_harian w), saham_id = stock_id stock,
                  close_date = date data, close_price = close data\<rparr>]\<rparr>)"
  using assms
  by (simp add: save_price_to_supabase_def harga_query_defs rows_for_def next_ok_Suc
      numeral_2_eq_2)

text \<open>The upsert when some record matches, whatever the outcomes of its queries.\<close>

lemma save_price_nonempty_cases:
  assumes "rows_for (stock_id stock) (date data) (harga_saham_harian w) = r # rs"
  shows "save_price_to_supabase stock data w =
           (if harga_faults w \<noteq> [] \<and> hd (harga_faults w)
            then (Inl StoreError, w\<lparr>harga_faults := tl (harga_faults w)\<rparr>)
            else if tl (harga_faults w) \<noteq> [] \<and> hd (tl (harga_faults w))
            then (Inl StoreError, w\<lparr>harga_faults := tl (tl (harga_faults w))\<rparr>)
            else (Inr ''update'',
                  w\<lparr>harga_faults := tl (tl (harga_faults w)),
                    harga_saham_harian :=
                      map (\<lambda>x. if harga_id x = harga_id r
                               then x\<lparr>close_price := close data\<rparr> else x)
                        (harga_saham_harian w)\<rparr>))"
  using assms
  by (simp add: save_price_to_supabase_def harga_query_defs rows_for_def)

lemma save_price_update:
  assumes "next_ok 2 (harga_faults w)"
    and "rows_for (stock_id stock) (date data) (harga_saham_harian w) = r # rs"
  shows "save_price_to_supabase stock data w =
           (Inr ''update'',
            w\<lparr>harga_faults := tl (tl (harga_faults w)),
              harga_saham_harian :=
                map (\<lambda>x. if harga_id x = harga_id r then x\<lparr>close_price := close data\<rparr> else x)
                  (harga_saham_harian w)\<rparr>)"
  using assms(1) unfolding save_price_nonempty_cases [OF assms(2)]
  by (simp add: next_ok_Suc numeral_2_eq_2)

text \<open>What the upsert can do to the table: nothing, one update by id, or one insert.\<close>

lemma save_price_cases:
  "harga_saham_harian (snd (save_price_to_supabase stock data w)) = harga_saham_harian w \<or>
   (\<exists>r rs. rows_for (stock_id stock) (date data) (harga_saham_harian w) = r # rs \<and>
      harga_saham_harian (snd (save_price_to_supabase stock data w)) =
        map (\<lambda>x. if harga_id x = harga_id r then x\<lparr>close_price := close data\<rparr> else x)
          (harga_saham_harian w)) \<or>
   (rows_for (stock_id stock) (date data) (harga_saham_harian w) = [] \<and>
      harga_saham_harian (snd (save_price_to_supabase stock data w)) =
        harga_saham_harian w @
          [\<lparr>harga_id = fresh_id (harga_saham_harian w), saham_id = stock_id stock,
            close_date = date data, close_price = close data\<rparr>])"
proof (cases "rows_for (stock_id stock) (date data) (harga_saham_harian w)")
  case Nil
  then show ?thesis
    by (simp add: save_price_to_supabase_def harga_query_defs rows_for_def)
next
  case (Cons r rs)
  then show ?thesis
    by (simp add: save_price_nonempty_cases)
qed

lemma map_upd_price_key:
  "map (\<lambda>r. (saham_id r, close_date r))
     (map (\<lambda>x. if harga_id x = i then x\<lparr>close_price := p\<rparr> else x) rows) =
   map (\<lambda>r. (saham_id r, close_date r)) rows"
  by (induction rows) simp_all

lemma map_upd_price_id:
  "map harga_id (map (\<lambda>x. if harga_id x = i then x\<lparr>close_price := p\<rparr> else x) rows) =
   map harga_id rows"
  by (induction rows) simp_all

lemma rows_for_map_upd:
  "rows_for s d (map (\<lambda>x. if harga_id x = i then x\<lparr>close_price := p\<rparr> else x) rows) =
   map (\<lambda>x. if harga_id x = i then x\<lparr>close_price := p\<rparr> else x) (rows_for s d rows)"
  by (induction rows) (simp_all add: rows_for_def)

lemma rows_for_empty_key:
  "rows_for s d rows = [] \<Longrightarrow> (s, d) \<notin> set (map (\<lambda>r. (saham_id r, close_date r)) rows)"
  by (auto simp: rows_for_def filter_empty_conv)

text \<open>Where ids are a key of the table, the update by id changes the one row that has the id.\<close>

lemma upd_by_id_eq_upd_row:
  assumes "distinct (map harga_id rows)" and "r \<in> set rows"
  shows "map (\<lambda>x. if harga_id x = harga_id r then x\<lparr>close_price := p\<rparr> else x) rows =
         map (\<lambda>x. if x = r then x\<lparr>close_price := p\<rparr> else x) rows"
proof (rule map_cong [OF refl])
  fix x assume "x \<in> set rows"
  with assms have "harga_id x = harga_id r \<longleftrightarrow> x = r"
    by (auto simp: distinct_map dest: inj_onD)
  then show "(if harga_id x = harga_id r then x\<lparr>close_price := p\<rparr> else x) =
             (if x = r then x\<lparr>close_price := p\<rparr> else x)"
    by simp
qed

lemma fold_max_ge: "(a::int) \<le> fold max xs a"
  by (induction xs arbitrary: a) (auto intro: order_trans [OF max.cobounded2])

lemma fold_max_upper: "(x::int) \<in> set xs \<Longrightarrow> x \<le> fold max xs a"
proof (induction xs arbitrary: a)
  case Nil
  then show ?case by simp
next
  case (Cons y ys)
  show ?case
  proof (cases "x = y")
    case True
    have "y \<le> max y a" by simp
    also have "\<dots> \<le> fold max ys (max y a)" by (rule fold_max_ge)
    finally show ?thesis using True by simp
  next
    case False
    with Cons.prems have "x \<in> set ys" by simp
    from Cons.IH [OF this] show ?thesis by simp
  qed
qed

text \<open>The id of an inserted record is new, so ids stay a key of the table under the upsert.\<close>

lemma fresh_id_new: "fresh_id rows \<notin> set (map harga_id rows)"
proof
  assume "fresh_id rows \<in> set (map harga_id rows)"
  then have "fresh_id rows \<le> fold max (map harga_id rows) 0" by (rule fold_max_upper)
  then show False by (simp add: fresh_id_def)
qed

lemma save_price_keeps_ids_distinct:
  assumes "distinct (map harga_id (harga_saham_harian w))"
  shows "distinct (map harga_id (harga_saham_harian (snd (save_price_to_supabase stock data w))))"
proof -
  let ?rows = "harga_saham_harian w"
  let ?rows' = "harga_saham_harian (snd (save_price_to_supabase stock data w))"
  from save_price_cases [of stock data w]
  consider (same) "?rows' = ?rows"
    | (update) i where
        "?rows' = map (\<lambda>x. if harga_id x = i then x\<lparr>close_price := close data\<rparr> else x) ?rows"
    | (insert) "?rows' = ?rows @ [\<lparr>harga_id = fresh_id ?rows, saham_id = stock_id stock,
                            close_date = date data, close_price = close data\<rparr>]"
    by blast
  then show ?thesis
  proof cases
    case same
    with assms show ?thesis by simp
  next
    case update
    have "map harga_id ?rows' = map harga_id ?rows"
      unfolding update by (rule map_upd_price_id)
    with assms show ?thesis by simp
  next
    case insert
    with assms fresh_id_new [of ?rows] show ?thesis by simp
  qed
qed

lemmas example_defs =
  bbca_def price_9500_def price_9550_def row_9500_def row_9400_def
  empty_world_def world_one_def world_dup_def

lemmas save_price_eval =
  save_price_to_supabase_def select_harga_id_def update_harga_def insert_harga_def
  execute_def fresh_id_def rows_for_def

text \<open>
  C1. An upsert for instrument X on date D with price P, whose two queries succeed: when
  the table has no record for (X, D), it appends one new record (X, D, P), the only
  record for (X, D) afterwards, and returns \<^verbatim>\<open>insert\<close>; when the table has exactly
  one record for (X, D), there is exactly one afterwards, that record with price P, no
  record is added, and it returns \<^verbatim>\<open>update\<close>.
\<close>

theorem save_price_upsert:
  assumes "next_ok 2 (harga_faults w)"
    and "save_price_to_supabase stock data w = (res, w')"
    and "stock_id stock = X" and "date data = D" and "close data = P"
  shows "(rows_for X D (harga_saham_harian w) = [] \<longrightarrow>
            res = Inr ''insert'' \<and>
            (\<exists>i. harga_saham_harian w' =
                   harga_saham_harian w @
                     [\<lparr>harga_id = i, saham_id = X, close_date = D, close_price = P\<rparr>] \<and>
                 rows_for X D (harga_saham_harian w') =
                     [\<lparr>harga_id = i, saham_id = X, close_date = D, close_price = P\<rparr>])) \<and>
         (\<forall>r. rows_for X D (harga_saham_harian w) = [r] \<longrightarrow>
            res = Inr ''update'' \<and>
            rows_for X D (harga_saham_harian w') = [r\<lparr>close_price := P\<rparr>] \<and>
            length (harga_saham_harian w') = length (harga_saham_harian w))"
proof (intro conjI allI impI)
  assume none: "rows_for X D (harga_saham_harian w) = []"
  have "save_price_to_supabase stock data w =
           (Inr ''insert'',
            w\<lparr>harga_faults := tl (tl (harga_faults w)),
              harga_saham_harian := harga_saham_harian w @
                [\<lparr>harga_id = fresh_id (harga_saham_harian w), saham_id = X,
                  close_date = D, close_price = P\<rparr>]\<rparr>)"
    using save_price_insert [of w stock data] assms none by simp
  with assms(2) have res: "res = Inr ''insert''"
    and w': "harga_saham_harian w' = harga_saham_harian w @
                [\<lparr>harga_id = fresh_id (harga_saham_harian w), saham_id = X,
                  close_date = D, close_price = P\<rparr>]"
    by auto
  show "res = Inr ''insert''" by (rule res)
  show "\<exists>i. harga_saham_harian w' =
                   harga_saham_harian w @
                     [\<lparr>harga_id = i, saham_id = X, close_date = D, close_price = P\<rparr>] \<and>
                 rows_for X D (harga_saham_harian w') =
                     [\<lparr>harga_id = i, saham_id = X, close_date = D, close_price = P\<rparr>]"
  proof (intro exI conjI)
    show "harga_saham_harian w' = harga_saham_harian w @
                [\<lparr>harga_id = fresh_id (harga_saham_harian w), saham_id = X,
                  close_date = D, close_price = P\<rparr>]" by (rule w')
    show "rows_for X D (harga_saham_harian w') =
                [\<lparr>harga_id = fresh_id (harga_saham_harian w), saham_id = X,
                  close_date = D, close_price = P\<rparr>]"
      using none by (simp add: w' rows_for_def)
  qed
next
  fix r
  assume one: "rows_for X D (harga_saham_harian w) = [r]"
  have "save_price_to_supabase stock data w =
           (Inr ''update'',
            w\<lparr>harga_faults := tl (tl (harga_faults w)),
              harga_saham_harian :=
                map (\<lambda>x. if harga_id x = harga_id r then x\<lparr>close_price := P\<rparr> else x)
                  (harga_saham_harian w)\<rparr>)"
    using save_price_update [of w stock data r "[]"] assms one by simp
  with assms(2) have res: "res = Inr ''update''"
    and w': "harga_saham_harian w' =
                map (\<lambda>x. if harga_id x = harga_id r then x\<lparr>close_price := P\<rparr> else x)
                  (harga_saham_harian w)"
    by auto
  show "res = Inr ''update''" by (rule res)
  show "rows_for X D (harga_saham_harian w') = [r\<lparr>close_price := P\<rparr>]"
    by (simp add: w' rows_for_map_upd one)
  show "length (harga_saham_harian w') = length (harga_saham_harian w)"
    by (simp add: w')
qed

theorem save_price_upsert_witness:
  "next_ok 2 (harga_faults empty_world) \<and>
   rows_for 1 ''2024-03-01'' (harga_saham_harian empty_world) = [] \<and>
   fst (save_price_to_supabase bbca price_9500 empty_world) = Inr ''insert'' \<and>
   length (rows_for 1 ''2024-03-01''
     (harga_saham_harian (snd (save_price_to_supabase bbca price_9500 empty_world)))) = 1 \<and>
   next_ok 2 (harga_faults world_one) \<and>
   rows_for 1 ''2024-03-01'' (harga_saham_harian world_one) = [row_9500] \<and>
   fst (save_price_to_supabase bbca price_9550 world_one) = Inr ''update'' \<and>
   rows_for 1 ''2024-03-01''
     (harga_saham_harian (snd (save_price_to_supabase bbca price_9550 world_one))) =
     [row_9500\<lparr>close_price := 9550\<rparr>] \<and>
   length (harga_saham_harian (snd (save_price_to_supabase bbca price_9550 world_one))) = 1"
proof -
  have a: "next_ok 2 (harga_faults empty_world)" "next_ok 2 (harga_faults world_one)"
    by (simp_all add: next_ok_def example_defs)
  have e: "rows_for 1 ''2024-03-01'' (harga_saham_harian empty_world) = []"
    by (simp add: rows_for_def example_defs)
  have o: "rows_for 1 ''2024-03-01'' (harga_saham_harian world_one) = [row_9500]"
    by (simp add: rows_for_def example_defs)
  have l: "length (harga_saham_harian world_one) = 1"
    by (simp add: example_defs)
  have f: "stock_id bbca = 1" "date price_9500 = ''2024-03-01''" "close price_9500 = 9500"
    "date price_9550 = ''2024-03-01''" "close price_9550 = 9550"
    by (simp_all add: example_defs)
  note ins = save_price_upsert [OF a(1) prod.collapse [symmetric] f(1) f(2) f(3)]
  note upd = save_price_upsert [OF a(2) prod.collapse [symmetric] f(1) f(4) f(5)]
  show ?thesis
    using ins upd a e o l by auto
qed

text \<open>
  C2. If the table has at most one record for each instrument and date, it still has at
  most one for each after an upsert, for every instrument, every fetched price and every
  outcome of the upsert's queries: the check before the write is what keeps it so.
\<close>

theorem save_price_keeps_one_per_pair:
  assumes "one_per_pair (harga_saham_harian w)"
  shows "one_per_pair (harga_saham_harian (snd (save_price_to_supabase stock data w)))"
proof -
  let ?rows = "harga_saham_harian w"
  let ?rows' = "harga_saham_harian (snd (save_price_to_supabase stock data w))"
  let ?key = "\<lambda>r::'a harga_row. (saham_id r, close_date r)"
  from save_price_cases [of stock data w]
  consider (same) "?rows' = ?rows"
    | (update) i where
        "?rows' = map (\<lambda>x. if harga_id x = i then x\<lparr>close_price := close data\<rparr> else x) ?rows"
    | (insert) "rows_for (stock_id stock) (date data) ?rows = []"
        "?rows' = ?rows @ [\<lparr>harga_id = fresh_id ?rows, saham_id = stock_id stock,
                            close_date = date data, close_price = close data\<rparr>]"
    by blast
  then show ?thesis
  proof cases
    case same
    with assms show ?thesis by simp
  next
    case update
    have "map ?key ?rows' = map ?key ?rows"
      unfolding update by (rule map_upd_price_key)
    with assms show ?thesis by (simp add: one_per_pair_def)
  next
    case insert
    from insert(1) have "(stock_id stock, date data) \<notin> set (map ?key ?rows)"
      by (rule rows_for_empty_key)
    with assms show ?thesis unfolding insert(2) one_per_pair_def by simp
  qed
qed

theorem save_price_keeps_one_per_pair_witness:
  "one_per_pair (harga_saham_harian world_one) \<and>
   one_per_pair (harga_saham_harian (snd (save_price_to_supabase bbca price_9550 world_one))) \<and>
   harga_saham_harian (snd (save_price_to_supabase bbca price_9550 world_one)) =
     [row_9500\<lparr>close_price := 9550\<rparr>]"
proof -
  have a: "one_per_pair (harga_saham_harian world_one)"
    by (simp add: one_per_pair_def example_defs)
  have b: "harga_saham_harian (snd (save_price_to_supabase bbca price_9550 world_one)) =
     [row_9500\<lparr>close_price := 9550\<rparr>]"
    by (simp add: save_price_eval example_defs)
  show ?thesis
    using save_price_keeps_one_per_pair [OF a, of bbca price_9550] a b by simp
qed

text \<open>
  C10. On a table that already has two or more records for instrument X and date D, and
  in which ids are a key, an upsert for (X, D) deletes and adds no record: the ids of
  the table and the number of records for (X, D) are as before. At most the first
  record that matches (the one the query limited to one row selects) changes, and only in
  its price; when both queries succeed, that record gets the new price.
\<close>

theorem save_price_keeps_duplicates:
  assumes "2 \<le> length (rows_for X D (harga_saham_harian w))"
    and "distinct (map harga_id (harga_saham_harian w))"
    and "save_price_to_supabase stock data w = (res, w')"
    and "stock_id stock = X" and "date data = D" and "close data = P"
  shows "map harga_id (harga_saham_harian w') = map harga_id (harga_saham_harian w) \<and>
         length (rows_for X D (harga_saham_harian w')) =
           length (rows_for X D (harga_saham_harian w)) \<and>
         (harga_saham_harian w' = harga_saham_harian w \<or>
          harga_saham_harian w' =
            map (\<lambda>r. if r = hd (rows_for X D (harga_saham_harian w))
                     then r\<lparr>close_price := P\<rparr> else r) (harga_saham_harian w)) \<and>
         (next_ok 2 (harga_faults w) \<longrightarrow>
            res = Inr ''update'' \<and>
            harga_saham_harian w' =
              map (\<lambda>r. if r = hd (rows_for X D (harga_saham_harian w))
                       then r\<lparr>close_price := P\<rparr> else r) (harga_saham_harian w))"
proof -
  let ?rows = "harga_saham_harian w"
  from assms(1) obtain r rs where rs: "rows_for X D ?rows = r # rs"
    by (cases "rows_for X D ?rows") auto
  then have "r \<in> set (rows_for X D ?rows)" by simp
  then have r_in: "r \<in> set ?rows" by (simp add: rows_for_def)
  let ?upd = "map (\<lambda>x. if x = r then x\<lparr>close_price := P\<rparr> else x) ?rows"
  have upd: "map (\<lambda>x. if harga_id x = harga_id r then x\<lparr>close_price := P\<rparr> else x) ?rows = ?upd"
    using assms(2) r_in by (rule upd_by_id_eq_upd_row)
  have ids: "map harga_id ?upd = map harga_id ?rows"
    unfolding upd [symmetric] by (rule map_upd_price_id)
  have len: "length (rows_for X D ?upd) = length (rows_for X D ?rows)"
    unfolding upd [symmetric] by (simp add: rows_for_map_upd)
  have run: "(res, w') =
           (if harga_faults w \<noteq> [] \<and> hd (harga_faults w)
            then (Inl StoreError, w\<lparr>harga_faults := tl (harga_faults w)\<rparr>)
            else if tl (harga_faults w) \<noteq> [] \<and> hd (tl (harga_faults w))
            then (Inl StoreError, w\<lparr>harga_faults := tl (tl (harga_faults w))\<rparr>)
            else (Inr ''update'',
                  w\<lparr>harga_faults := tl (tl (harga_faults w)), harga_saham_harian := ?upd\<rparr>))"
  proof -
    from assms(4,5) rs
    have "rows_for (stock_id stock) (date data) ?rows = r # rs" by simp
    note run0 = save_price_nonempty_cases [OF this]
    show ?thesis unfolding assms(3) [symmetric] run0 assms(6) upd ..
  qed
  have cases: "harga_saham_harian w' = ?rows \<or> harga_saham_harian w' = ?upd"
    using run by (auto split: if_splits)
  have ok: "next_ok 2 (harga_faults w) \<longrightarrow> res = Inr ''update'' \<and> harga_saham_harian w' = ?upd"
    using run by (auto simp: next_ok_Suc numeral_2_eq_2)
  from cases ids have 1: "map harga_id (harga_saham_harian w') = map harga_id ?rows"
    by auto
  from cases len
  have 2: "length (rows_for X D (harga_saham_harian w')) = length (rows_for X D ?rows)"
    by auto
  show ?thesis using 1 2 cases ok by (simp add: rs)
qed

theorem save_price_keeps_duplicates_witness:
  "2 \<le> length (rows_for 1 ''2024-03-01'' (harga_saham_harian world_dup)) \<and>
   distinct (map harga_id (harga_saham_harian world_dup)) \<and>
   next_ok 2 (harga_faults world_dup) \<and>
   fst (save_price_to_supabase bbca price_9550 world_dup) = Inr ''update'' \<and>
   harga_saham_harian (snd (save_price_to_supabase bbca price_9550 world_dup)) =
     [row_9500\<lparr>close_price := 9550\<rparr>, row_9400] \<and>
   length (rows_for 1 ''2024-03-01''
     (harga_saham_harian (snd (save_price_to_supabase bbca price_9550 world_dup)))) = 2"
proof -
  have h: "harga_saham_harian world_dup = [row_9500, row_9400]"
    by (simp add: example_defs)
  have d: "rows_for 1 ''2024-03-01'' [row_9500, row_9400] = [row_9500, row_9400]"
    "rows_for 1 ''2024-03-01'' [row_9500\<lparr>close_price := 9550\<rparr>, row_9400] =
       [row_9500\<lparr>close_price := 9550\<rparr>, row_9400]"
    by (simp_all add: rows_for_def example_defs)
  have a: "2 \<le> length (rows_for 1 ''2024-03-01'' (harga_saham_harian world_dup))"
    by (simp add: d h)
  have b: "distinct (map harga_id (harga_saham_harian world_dup))"
    by (simp add: example_defs)
  have c: "next_ok 2 (harga_faults world_dup)"
    by (simp add: next_ok_def example_defs)
  have n: "row_9400 \<noteq> row_9500"
    by (simp add: example_defs)
  have f: "stock_id bbca = 1" "date price_9550 = ''2024-03-01''" "close price_9550 = 9550"
    by (simp_all add: example_defs)
  note t = save_price_keeps_duplicates [OF a b prod.collapse [symmetric] f]
  show ?thesis
    using t a b c n by (simp add: d h)
qed

section \<open>The tracked-symbol loader\<close>

text \<open>
  C6, as the code has it. When the query on table \<^verbatim>\<open>saham\<close> succeeds, the loader
  returns exactly the rows that are tracked and whose symbol is not null, not empty and
  not the string \<^verbatim>\<open>null\<close>, in the order of the table. The store query applies the
  condition on \<^verbatim>\<open>is_tracked\<close> only; the condition on the symbol is applied once, on
  the rows the query returned. The table is not changed.
\<close>

theorem get_tracked_stocks_filter:
  assumes "next_ok 1 (saham_faults w)"
  shows "fst (get_tracked_stocks w) =
           Inr (filter (\<lambda>r. is_tracked r \<and> yahoo_symbol r \<noteq> None \<and>
                           yahoo_symbol r \<noteq> Some '''' \<and> yahoo_symbol r \<noteq> Some ''null'')
                  (saham w)) \<and>
         fst (select_saham_tracked w) = Inr (filter is_tracked (saham w)) \<and>
         saham (snd (get_tracked_stocks w)) = saham w"
proof -
  from assms have ok: "\<not> (saham_faults w \<noteq> [] \<and> hd (saham_faults w))"
    by (simp add: next_ok_Suc)
  have q: "select_saham_tracked w =
             (Inr (filter is_tracked (saham w)), w\<lparr>saham_faults := tl (saham_faults w)\<rparr>)"
    using ok by (simp add: select_saham_tracked_def execute_eq)
  have c: "(\<lambda>x. yahoo_symbol x \<noteq> None \<and> yahoo_symbol x \<noteq> Some [] \<and>
                yahoo_symbol x \<noteq> Some ''null'' \<and> is_tracked x) =
           (\<lambda>r. is_tracked r \<and> yahoo_symbol r \<noteq> None \<and> yahoo_symbol r \<noteq> Some [] \<and>
                yahoo_symbol r \<noteq> Some ''null'')"
    by auto
  show ?thesis
    by (simp add: get_tracked_stocks_def q logging_info_def Let_def c)
qed

theorem get_tracked_stocks_filter_witness:
  "next_ok 1 (saham_faults world_saham) \<and>
   fst (get_tracked_stocks world_saham) = Inr [bbca] \<and>
   fst (select_saham_tracked world_saham) = Inr [bbca, unmapped]"
proof -
  have a: "next_ok 1 (saham_faults world_saham)"
    by (simp add: next_ok_def world_saham_def empty_world_def)
  have s: "saham world_saham = [bbca, unmapped, untracked]"
    by (simp add: world_saham_def empty_world_def)
  have f: "is_tracked bbca" "is_tracked unmapped" "\<not> is_tracked untracked"
    "yahoo_symbol bbca = Some ''BBCA.JK''" "yahoo_symbol unmapped = None"
    by (simp_all add: bbca_def unmapped_def untracked_def)
  show ?thesis
    using get_tracked_stocks_filter [OF a] a by (simp add: s f)
qed

text \<open>
  The store query does not filter on the symbol: on the example table it returns the
  tracked instrument whose symbol is null, which only the loader's own filter removes.
\<close>

theorem select_saham_tracked_keeps_unmapped:
  "fst (select_saham_tracked world_saham) = Inr [bbca, unmapped] \<and>
   yahoo_symbol unmapped = None \<and>
   fst (get_tracked_stocks world_saham) = Inr [bbca]"
  by (simp add: select_saham_tracked_def get_tracked_stocks_def execute_def logging_info_def
      world_saham_def empty_world_def bbca_def unmapped_def untracked_def)

section \<open>The price fetcher\<close>

lemma is_digit_digit: "is_digit (digit n)"
  unfolding is_digit_def digit_def by (rule nth_mem) simp

lemma decimal_digits: "\<forall>c \<in> set (decimal n). is_digit c"
proof (induction n rule: decimal.induct)
  case (1 n)
  show ?case
  proof (cases "n < 10")
    case True
    then show ?thesis by (subst decimal.simps) (simp add: is_digit_digit)
  next
    case False
    with 1 show ?thesis by (subst decimal.simps) (simp add: is_digit_digit)
  qed
qed

lemma length_decimal_10: "n < 10 \<Longrightarrow> length (decimal n) = 1"
  by (subst decimal.simps) simp

lemma length_decimal_100: "n < 100 \<Longrightarrow> length (decimal n) \<le> 2"
  by (subst decimal.simps) (simp add: length_decimal_10)

lemma length_decimal_1000: "n < 1000 \<Longrightarrow> length (decimal n) \<le> 3"
proof (cases "n < 10")
  case True
  then show ?thesis by (simp add: length_decimal_10)
next
  case False
  assume "n < 1000"
  then have "n div 10 < 100" by simp
  then have "length (decimal (n div 10)) \<le> 2" by (rule length_decimal_100)
  with False show ?thesis by (subst decimal.simps) simp
qed

lemma length_decimal_10000: "n < 10000 \<Longrightarrow> length (decimal n) \<le> 4"
proof (cases "n < 10")
  case True
  then show ?thesis by (simp add: length_decimal_10)
next
  case False
  assume "n < 10000"
  then have "n div 10 < 1000" by simp
  then have "length (decimal (n div 10)) \<le> 3" by (rule length_decimal_1000)
  with False show ?thesis by (subst decimal.simps) simp
qed

lemma zero_pad_length: "length (decimal n) \<le> k \<Longrightarrow> length (zero_pad k n) = k"
  by (simp add: zero_pad_def)

lemma is_digit_zero: "is_digit (CHR ''0'')"
  by (simp add: is_digit_def)

lemma zero_pad_digits: "\<forall>c \<in> set (zero_pad k n). is_digit c"
  using decimal_digits [of n] by (auto simp: zero_pad_def is_digit_zero)

lemma iso_date_form_parts:
  assumes "length a = 4" "length b = 2" "length c = 2"
    and "\<forall>x \<in> set a. is_digit x" "\<forall>x \<in> set b. is_digit x" "\<forall>x \<in> set c. is_digit x"
  shows "iso_date_form (a @ ''-'' @ b @ ''-'' @ c)"
proof -
  from assms(1) have "length a = Suc (Suc (Suc (Suc 0)))" by simp
  then obtain a0 a1 a2 a3 where a: "a = [a0, a1, a2, a3]"
    by (auto simp: length_Suc_conv)
  from assms(2) have "length b = Suc (Suc 0)" by simp
  then obtain b0 b1 where b: "b = [b0, b1]"
    by (auto simp: length_Suc_conv)
  from assms(3) have "length c = Suc (Suc 0)" by simp
  then obtain c0 c1 where c: "c = [c0, c1]"
    by (auto simp: length_Suc_conv)
  show ?thesis
    using assms(4-6) by (simp add: a b c iso_date_form_def)
qed

lemma date_isoformat_form:
  assumes "valid_date d"
  shows "iso_date_form (date_isoformat d)"
proof -
  from assms have "year d < 10000" "month d < 100" "day d < 100"
    by (simp_all add: valid_date_def)
  then have "length (zero_pad 4 (year d)) = 4" "length (zero_pad 2 (month d)) = 2"
    "length (zero_pad 2 (day d)) = 2"
    by (simp_all add: zero_pad_length length_decimal_10000 length_decimal_100)
  then show ?thesis
    unfolding date_isoformat_def
    by (intro iso_date_form_parts zero_pad_digits)
qed

lemma chronological_last:
  assumes "chronological hist" "b \<in> set hist"
  shows "date_le (bar_date b) (bar_date (last hist))"
proof -
  from assms(2) have ne: "hist \<noteq> []" by auto
  then have h: "hist = butlast hist @ [last hist]" by simp
  have refl: "date_le (bar_date (last hist)) (bar_date (last hist))"
    by (simp add: date_le_def)
  from assms(1) have "sorted_wrt (\<lambda>a b. date_le (bar_date a) (bar_date b)) (butlast hist @ [last hist])"
    unfolding chronological_def using h by simp
  then have "\<forall>x \<in> set (butlast hist). date_le (bar_date x) (bar_date (last hist))"
    by (simp add: sorted_wrt_append)
  moreover from assms(2) h have "b \<in> set (butlast hist) \<or> b = last hist"
    by (metis Un_iff insert_iff list.set(2) set_append empty_iff list.set(1))
  ultimately show ?thesis using refl by auto
qed

lemma fetch_price_eq:
  "fetch_price yf symbol w =
     (case yf symbol ''5d'' ''1d'' of
        Inl e \<Rightarrow>
          (Inr None,
           logging_warning (Msg_yf_failed symbol e)
             (w\<lparr>history_calls := history_calls w @ [(symbol, ''5d'', ''1d'')]\<rparr>))
      | Inr hist \<Rightarrow>
          if hist = [] then
            (Inr None,
             logging_warning (Msg_yf_empty symbol)
               (w\<lparr>history_calls := history_calls w @ [(symbol, ''5d'', ''1d'')]\<rparr>))
          else
            (Inr (Some \<lparr>date = date_isoformat (bar_date (last hist)),
                        close = bar_close (last hist)\<rparr>),
             w\<lparr>history_calls := history_calls w @ [(symbol, ''5d'', ''1d'')]\<rparr>))"
  by (simp add: fetch_price_def fetch_price_try_def Let_def split: sum.splits)

text \<open>
  C4. For every symbol \<^verbatim>\<open>fetch_price\<close> returns without raising and sends the provider
  one request, for period \<^verbatim>\<open>5d\<close> and interval \<^verbatim>\<open>1d\<close>. When the provider raises, or
  its frame is empty, the result is \<^verbatim>\<open>None\<close>. Otherwise the result is the record
  of the last row of the frame: its date in ISO form (for a date that a date object
  can hold, ten characters YYYY-MM-DD) and its closing price as it came; when the frame
  is in chronological order, as the provider's frames are, no row of it has a later date.
\<close>

theorem fetch_price_outcomes:
  "(\<exists>r. fst (fetch_price yf symbol w) = Inr r) \<and>
   history_calls (snd (fetch_price yf symbol w)) = history_calls w @ [(symbol, ''5d'', ''1d'')] \<and>
   (\<forall>e. yf symbol ''5d'' ''1d'' = Inl e \<longrightarrow> fst (fetch_price yf symbol w) = Inr None) \<and>
   (yf symbol ''5d'' ''1d'' = Inr [] \<longrightarrow> fst (fetch_price yf symbol w) = Inr None) \<and>
   (\<forall>hist. yf symbol ''5d'' ''1d'' = Inr hist \<and> hist \<noteq> [] \<longrightarrow>
      fst (fetch_price yf symbol w) =
        Inr (Some \<lparr>date = date_isoformat (bar_date (last hist)), close = bar_close (last hist)\<rparr>) \<and>
      (valid_date (bar_date (last hist)) \<longrightarrow>
         iso_date_form (date_isoformat (bar_date (last hist)))) \<and>
      (chronological hist \<longrightarrow>
         (\<forall>b \<in> set hist. date_le (bar_date b) (bar_date (last hist)))))"
proof (intro conjI allI impI ballI)
  show "\<exists>r. fst (fetch_price yf symbol w) = Inr r"
    by (simp add: fetch_price_eq split: sum.splits)
  show "history_calls (snd (fetch_price yf symbol w)) =
          history_calls w @ [(symbol, ''5d'', ''1d'')]"
    by (simp add: fetch_price_eq logging_warning_def split: sum.splits)
next
  fix e assume "yf symbol ''5d'' ''1d'' = Inl e"
  then show "fst (fetch_price yf symbol w) = Inr None"
    by (simp add: fetch_price_eq)
next
  assume "yf symbol ''5d'' ''1d'' = Inr []"
  then show "fst (fetch_price yf symbol w) = Inr None"
    by (simp add: fetch_price_eq)
next
  fix hist assume "yf symbol ''5d'' ''1d'' = Inr hist \<and> hist \<noteq> []"
  then show "fst (fetch_price yf symbol w) =
        Inr (Some \<lparr>date = date_isoformat (bar_date (last hist)), close = bar_close (last hist)\<rparr>)"
    by (simp add: fetch_price_eq)
next
  fix hist :: "'a bar list"
  assume "valid_date (bar_date (last hist))"
  then show "iso_date_form (date_isoformat (bar_date (last hist)))"
    by (rule date_isoformat_form)
next
  fix hist :: "'a bar list" and b
  assume "chronological hist" "b \<in> set hist"
  then show "date_le (bar_date b) (bar_date (last hist))"
    by (rule chronological_last)
qed

theorem fetch_price_outcomes_witness:
  "yf_example ''NOPE.JK'' ''5d'' ''1d'' = Inl ProviderError \<and>
   fst (fetch_price yf_example ''NOPE.JK'' empty_world) = Inr None \<and>
   yf_example ''GONE.JK'' ''5d'' ''1d'' = Inr [] \<and>
   fst (fetch_price yf_example ''GONE.JK'' empty_world) = Inr None \<and>
   yf_example ''BBCA.JK'' ''5d'' ''1d'' = Inr bars_bbca \<and> bars_bbca \<noteq> [] \<and>
   valid_date (bar_date (last bars_bbca)) \<and> chronological bars_bbca \<and>
   fst (fetch_price yf_example ''BBCA.JK'' empty_world) =
     Inr (Some \<lparr>date = ''2024-03-01'', close = 9500\<rparr>) \<and>
   iso_date_form ''2024-03-01'' \<and>
   date_le (bar_date (hd bars_bbca)) (bar_date (last bars_bbca))"
proof -
  have p: "yf_example ''NOPE.JK'' ''5d'' ''1d'' = Inl ProviderError"
    "yf_example ''GONE.JK'' ''5d'' ''1d'' = Inr []"
    "yf_example ''BBCA.JK'' ''5d'' ''1d'' = Inr bars_bbca"
    by (simp_all add: yf_example_def)
  have l: "last bars_bbca = \<lparr>bar_date = friday, bar_close = 9500\<rparr>"
    "hd bars_bbca \<in> set bars_bbca" "bars_bbca \<noteq> []"
    by (simp_all add: bars_bbca_def)
  have v: "valid_date (bar_date (last bars_bbca))"
    by (simp add: l valid_date_def friday_def)
  have c: "chronological bars_bbca"
    by (simp add: chronological_def bars_bbca_def date_le_def friday_def)
  have d: "date_isoformat friday = ''2024-03-01''"
    by (simp add: friday_def date_isoformat_def zero_pad_def decimal.simps digit_def
        replicate_numeral)
  note t = fetch_price_outcomes [of yf_example _ empty_world]
  show ?thesis
    using t [of "''NOPE.JK''"] t [of "''GONE.JK''"] t [of "''BBCA.JK''"] p l(2,3) v c
    by (simp add: l(1) d)
qed

section \<open>The status recorder\<close>

lemmas status_query_defs = update_status_def insert_status_def execute_eq

lemma filter_status_empty:
  "(filter (\<lambda>r. status_id r = i) rows = []) = (\<forall>r \<in> set rows. status_id r \<noteq> i)"
  by (simp add: filter_empty_conv)

lemma update_system_status_found:
  assumes "next_ok 2 (status_faults w)"
    and "\<exists>r \<in> set (system_status w). status_id r = 1"
  shows "update_system_status now_jkt market_hours w =
           (Inr (),
            w\<lparr>status_faults := tl (status_faults w),
              system_status :=
                map (\<lambda>r. if status_id r = 1
                         then set_field (if market_hours then Last_auto_update_at
                                         else Last_out_of_hours_run) (isoformat now_jkt) r
                         else r)
                  (system_status w)\<rparr>)"
proof -
  from assms(2) have "filter (\<lambda>r. status_id r = 1) (system_status w) \<noteq> []"
    by (simp add: filter_empty_conv)
  with assms(1) show ?thesis
    by (simp add: update_system_status_def status_query_defs next_ok_Suc numeral_2_eq_2 Let_def)
qed

lemma update_system_status_missing:
  assumes "next_ok 2 (status_faults w)"
    and "\<forall>r \<in> set (system_status w). status_id r \<noteq> 1"
  shows "update_system_status now_jkt market_hours w =
           (Inr (),
            w\<lparr>status_faults := tl (tl (status_faults w)),
              system_status :=
                system_status w @
                  [set_field (if market_hours then Last_auto_update_at
                              else Last_out_of_hours_run) (isoformat now_jkt)
                     \<lparr>status_id = 1, last_auto_update_at = None,
                      last_out_of_hours_run = None\<rparr>]\<rparr>)"
proof -
  from assms(2) have e: "filter (\<lambda>r. status_id r = 1) (system_status w) = []"
    by (simp add: filter_empty_conv)
  from assms(2) have m: "map (\<lambda>r. if status_id r = 1
                         then set_field (if market_hours then Last_auto_update_at
                                         else Last_out_of_hours_run) (isoformat now_jkt) r
                         else r) (system_status w) = system_status w"
    by (induction "system_status w") (auto simp: map_idI)
  from assms(1) show ?thesis
    by (simp add: update_system_status_def status_query_defs next_ok_Suc numeral_2_eq_2 Let_def
        e m)
qed

text \<open>
  C5. A run of the status recorder with timestamp T and market-hours flag B, whose
  queries succeed, returns normally. When the table has rows with id 1, each of them
  gets T (in ISO form) in \<^verbatim>\<open>last_auto_update_at\<close> if B holds and in
  \<^verbatim>\<open>last_out_of_hours_run\<close> otherwise, and nothing else changes. When it has none, one
  row is appended with id 1, T in the selected column and null in the other. In both
  cases the column that was not selected keeps its value in every row that existed, and
  the other tables are untouched.
\<close>

theorem update_system_status_one_field:
  assumes "next_ok 2 (status_faults w)"
    and "update_system_status now_jkt market_hours w = (res, w')"
  shows "res = Inr () \<and>
         ((\<exists>r \<in> set (system_status w). status_id r = 1) \<longrightarrow>
            system_status w' =
              map (\<lambda>r. if status_id r = 1
                       then (if market_hours
                             then r\<lparr>last_auto_update_at := Some (isoformat now_jkt)\<rparr>
                             else r\<lparr>last_out_of_hours_run := Some (isoformat now_jkt)\<rparr>)
                       else r)
                (system_status w)) \<and>
         ((\<forall>r \<in> set (system_status w). status_id r \<noteq> 1) \<longrightarrow>
            system_status w' =
              system_status w @
                [\<lparr>status_id = 1,
                  last_auto_update_at = (if market_hours then Some (isoformat now_jkt) else None),
                  last_out_of_hours_run =
                    (if market_hours then None else Some (isoformat now_jkt))\<rparr>]) \<and>
         (market_hours \<longrightarrow>
            map last_out_of_hours_run (take (length (system_status w)) (system_status w')) =
            map last_out_of_hours_run (system_status w)) \<and>
         (\<not> market_hours \<longrightarrow>
            map last_auto_update_at (take (length (system_status w)) (system_status w')) =
            map last_auto_update_at (system_status w)) \<and>
         harga_saham_harian w' = harga_saham_harian w \<and> saham w' = saham w"
proof (cases "\<exists>r \<in> set (system_status w). status_id r = 1")
  case True
  from update_system_status_found [OF assms(1) True, of now_jkt market_hours] assms(2)
  have res: "res = Inr ()"
    and w': "w' = w\<lparr>status_faults := tl (status_faults w),
              system_status :=
                map (\<lambda>r. if status_id r = 1
                         then set_field (if market_hours then Last_auto_update_at
                                         else Last_out_of_hours_run) (isoformat now_jkt) r
                         else r)
                  (system_status w)\<rparr>"
    by simp_all
  have a: "map last_out_of_hours_run
             (map (\<lambda>r. if status_id r = 1 then set_field Last_auto_update_at ts r else r) rows) =
           map last_out_of_hours_run rows" for ts and rows :: "status_row list"
    by (induction rows) (simp_all add: set_field_def)
  have b: "map last_auto_update_at
             (map (\<lambda>r. if status_id r = 1 then set_field Last_out_of_hours_run ts r else r) rows) =
           map last_auto_update_at rows" for ts and rows :: "status_row list"
    by (induction rows) (simp_all add: set_field_def)
  show ?thesis
    using True a b by (simp add: res w' set_field_def cong: map_cong)
next
  case False
  then have none: "\<forall>r \<in> set (system_status w). status_id r \<noteq> 1" by simp
  from update_system_status_missing [OF assms(1) none, of now_jkt market_hours] assms(2)
  have res: "res = Inr ()"
    and w': "w' = w\<lparr>status_faults := tl (tl (status_faults w)),
              system_status :=
                system_status w @
                  [set_field (if market_hours then Last_auto_update_at
                              else Last_out_of_hours_run) (isoformat now_jkt)
                     \<lparr>status_id = 1, last_auto_update_at = None,
                      last_out_of_hours_run = None\<rparr>]\<rparr>"
    by simp_all
  show ?thesis
    using False by (simp add: res w' set_field_def)
qed

theorem update_system_status_one_field_witness:
  "is_market_hours friday_10 \<and> \<not> is_market_hours friday_20 \<and>
   next_ok 2 (status_faults world_status) \<and> next_ok 2 (status_faults empty_world) \<and>
   fst (update_system_status friday_10 True world_status) = Inr () \<and>
   system_status (snd (update_system_status friday_10 True world_status)) =
     [\<lparr>status_id = 1, last_auto_update_at = Some ''2024-03-01T10:00:00+07:00'',
       last_out_of_hours_run = Some ''2024-02-29T20:00:00+07:00''\<rparr>] \<and>
   system_status (snd (update_system_status friday_20 False empty_world)) =
     [\<lparr>status_id = 1, last_auto_update_at = None,
       last_out_of_hours_run = Some ''2024-03-01T20:00:00+07:00''\<rparr>]"
proof -
  have m: "is_market_hours friday_10" "\<not> is_market_hours friday_20"
    by (simp_all add: is_market_hours_def friday_10_def friday_20_def at_time_def
        weekday_friday time_le_def mk_time_def)
  have a: "next_ok 2 (status_faults world_status)" "next_ok 2 (status_faults empty_world)"
    by (simp_all add: next_ok_def world_status_def empty_world_def)
  have s: "system_status world_status = [status_before]" "system_status empty_world = []"
    by (simp_all add: world_status_def empty_world_def)
  have i: "isoformat friday_10 = ''2024-03-01T10:00:00+07:00''"
    "isoformat friday_20 = ''2024-03-01T20:00:00+07:00''"
    by (simp_all add: iso_defs friday_10_def friday_20_def at_time_def friday_def)
  note u = update_system_status_one_field [OF a(1) prod.collapse [symmetric], of friday_10 True]
  note n = update_system_status_one_field [OF a(2) prod.collapse [symmetric], of friday_20 False]
  show ?thesis
    using u n m a by (simp add: s i status_before_def)
qed

section \<open>Start of the process\<close>

lemma startup_eq:
  "startup getenv =
     (if falsy (getenv ''SUPABASE_URL'') \<or>
         (falsy (getenv ''SUPABASE_SERVICE_ROLE_KEY'') \<and> falsy (getenv ''SUPABASE_ANON_KEY''))
      then Inl (RuntimeError ''SUPABASE_URL / SUPABASE_SERVICE_ROLE_KEY belum di-set di .env'')
      else Inr (the (getenv ''SUPABASE_URL''),
                if falsy (getenv ''SUPABASE_SERVICE_ROLE_KEY'')
                then the (getenv ''SUPABASE_ANON_KEY'')
                else the (getenv ''SUPABASE_SERVICE_ROLE_KEY'')))"
  by (simp add: startup_def SUPABASE_URL_def SUPABASE_KEY_def)

text \<open>
  C9. A configuration value is absent when its variable is unset or empty; the
  credential is the service-role key or, failing that, the anonymous key. If the
  endpoint or the credential is absent, the program ends at once with a
  \<^verbatim>\<open>RuntimeError\<close> and leaves the world as it was: no query on the store, no request
  to the provider, no log record. If both are present, the client is created with them
  and the program is the run.
\<close>

theorem startup_fails_fast:
  "(falsy (getenv ''SUPABASE_URL'') \<or>
    (falsy (getenv ''SUPABASE_SERVICE_ROLE_KEY'') \<and> falsy (getenv ''SUPABASE_ANON_KEY'')) \<longrightarrow>
      auto_update getenv yf now_jkt w =
        (Inl (RuntimeError ''SUPABASE_URL / SUPABASE_SERVICE_ROLE_KEY belum di-set di .env''),
         w)) \<and>
   (\<not> falsy (getenv ''SUPABASE_URL'') \<and>
    \<not> (falsy (getenv ''SUPABASE_SERVICE_ROLE_KEY'') \<and> falsy (getenv ''SUPABASE_ANON_KEY'')) \<longrightarrow>
      (\<exists>url key. startup getenv = Inr (url, key) \<and> url \<noteq> [] \<and> key \<noteq> [] \<and>
         getenv ''SUPABASE_URL'' = Some url \<and>
         (getenv ''SUPABASE_SERVICE_ROLE_KEY'' = Some key \<or>
          getenv ''SUPABASE_ANON_KEY'' = Some key)) \<and>
      auto_update getenv yf now_jkt w = run_once yf now_jkt w)"
proof (intro conjI impI)
  assume "falsy (getenv ''SUPABASE_URL'') \<or>
    (falsy (getenv ''SUPABASE_SERVICE_ROLE_KEY'') \<and> falsy (getenv ''SUPABASE_ANON_KEY''))"
  then show "auto_update getenv yf now_jkt w =
        (Inl (RuntimeError ''SUPABASE_URL / SUPABASE_SERVICE_ROLE_KEY belum di-set di .env''),
         w)"
    by (auto simp: auto_update_def startup_eq)
next
  assume p: "\<not> falsy (getenv ''SUPABASE_URL'') \<and>
    \<not> (falsy (getenv ''SUPABASE_SERVICE_ROLE_KEY'') \<and> falsy (getenv ''SUPABASE_ANON_KEY''))"
  then show "auto_update getenv yf now_jkt w = run_once yf now_jkt w"
    by (auto simp: auto_update_def startup_eq)
  from p show "\<exists>url key. startup getenv = Inr (url, key) \<and> url \<noteq> [] \<and> key \<noteq> [] \<and>
         getenv ''SUPABASE_URL'' = Some url \<and>
         (getenv ''SUPABASE_SERVICE_ROLE_KEY'' = Some key \<or>
          getenv ''SUPABASE_ANON_KEY'' = Some key)"
    by (auto simp: startup_eq falsy_def)
qed

theorem startup_fails_fast_witness:
  "falsy (env_no_url ''SUPABASE_URL'') \<and>
   fst (auto_update env_no_url yf_example friday_10 world_saham) =
     Inl (RuntimeError ''SUPABASE_URL / SUPABASE_SERVICE_ROLE_KEY belum di-set di .env'') \<and>
   snd (auto_update env_no_url yf_example friday_10 world_saham) = world_saham \<and>
   falsy (env_no_key ''SUPABASE_SERVICE_ROLE_KEY'') \<and> falsy (env_no_key ''SUPABASE_ANON_KEY'') \<and>
   snd (auto_update env_no_key yf_example friday_10 world_saham) = world_saham \<and>
   \<not> falsy (env_full ''SUPABASE_URL'') \<and> \<not> falsy (env_full ''SUPABASE_ANON_KEY'') \<and>
   startup env_full = Inr (''https://example.supabase.co'', ''anon-key'') \<and>
   auto_update env_full yf_example friday_10 world_saham =
     run_once yf_example friday_10 world_saham"
proof -
  have e: "env_no_url ''SUPABASE_URL'' = None"
    "env_no_key ''SUPABASE_URL'' = Some ''https://example.supabase.co''"
    "env_no_key ''SUPABASE_SERVICE_ROLE_KEY'' = Some []"
    "env_no_key ''SUPABASE_ANON_KEY'' = None"
    "env_full ''SUPABASE_URL'' = Some ''https://example.supabase.co''"
    "env_full ''SUPABASE_SERVICE_ROLE_KEY'' = None"
    "env_full ''SUPABASE_ANON_KEY'' = Some ''anon-key''"
    by (simp_all add: env_no_url_def env_no_key_def env_full_def)
  show ?thesis
    using startup_fails_fast [of env_no_url yf_example friday_10 world_saham]
      startup_fails_fast [of env_no_key yf_example friday_10 world_saham]
      startup_fails_fast [of env_full yf_example friday_10 world_saham]
    by (auto simp: e falsy_def startup_eq)
qed

section \<open>The loop over the tracked instruments\<close>

lemma fetch_price_frame:
  "harga_saham_harian (snd (fetch_price yf symbol w)) = harga_saham_harian w \<and>
   harga_faults (snd (fetch_price yf symbol w)) = harga_faults w \<and>
   saham (snd (fetch_price yf symbol w)) = saham w \<and>
   system_status (snd (fetch_price yf symbol w)) = system_status w \<and>
   saham_faults (snd (fetch_price yf symbol w)) = saham_faults w \<and>
   status_faults (snd (fetch_price yf symbol w)) = status_faults w"
  by (simp add: fetch_price_eq logging_warning_def split: sum.splits)

lemma fetch_price_logs:
  "\<exists>new. logs (snd (fetch_price yf symbol w)) = logs w @ new"
  by (simp add: fetch_price_eq logging_warning_def split: sum.splits)

lemma fetch_price_never_raises: "fst (fetch_price yf symbol w) \<noteq> Inl e"
  by (simp add: fetch_price_eq split: sum.splits)

lemma save_price_frame:
  "logs (snd (save_price_to_supabase stock data w)) = logs w \<and>
   history_calls (snd (save_price_to_supabase stock data w)) = history_calls w \<and>
   saham (snd (save_price_to_supabase stock data w)) = saham w \<and>
   system_status (snd (save_price_to_supabase stock data w)) = system_status w \<and>
   saham_faults (snd (save_price_to_supabase stock data w)) = saham_faults w \<and>
   status_faults (snd (save_price_to_supabase stock data w)) = status_faults w"
  by (simp add: save_price_to_supabase_def harga_query_defs Let_def split: list.splits)

lemma in_set_tl: "x \<in> set (tl xs) \<Longrightarrow> x \<in> set xs"
  by (cases xs) auto

lemma save_price_faults:
  "set (harga_faults (snd (save_price_to_supabase stock data w))) \<subseteq> set (harga_faults w)"
  by (auto simp: save_price_to_supabase_def harga_query_defs Let_def
      split: list.splits dest: in_set_tl)

lemma save_price_keeps_pairs:
  "set (map (\<lambda>r. (saham_id r, close_date r)) (harga_saham_harian w)) \<subseteq>
   set (map (\<lambda>r. (saham_id r, close_date r))
          (harga_saham_harian (snd (save_price_to_supabase stock data w))))"
proof -
  let ?key = "\<lambda>r::'a harga_row. (saham_id r, close_date r)"
  let ?rows' = "harga_saham_harian (snd (save_price_to_supabase stock data w))"
  from save_price_cases [of stock data w]
  consider (same) "?rows' = harga_saham_harian w"
    | (update) i where
        "?rows' = map (\<lambda>x. if harga_id x = i then x\<lparr>close_price := close data\<rparr> else x)
                    (harga_saham_harian w)"
    | (insert) row where "?rows' = harga_saham_harian w @ [row]"
    by blast
  then show ?thesis
  proof cases
    case same
    then show ?thesis by simp
  next
    case update
    have "map ?key ?rows' = map ?key (harga_saham_harian w)"
      unfolding update by (rule map_upd_price_key)
    then show ?thesis by simp
  next
    case insert
    then show ?thesis by auto
  qed
qed

lemma no_fault_next_ok: "True \<notin> set fs \<Longrightarrow> next_ok n fs"
  by (auto simp: next_ok_def dest: in_set_takeD)

lemma save_price_saves:
  assumes "True \<notin> set (harga_faults w)"
  shows "(fst (save_price_to_supabase stock data w) = Inr ''insert'' \<or>
          fst (save_price_to_supabase stock data w) = Inr ''update'') \<and>
         (stock_id stock, date data) \<in>
           set (map (\<lambda>r. (saham_id r, close_date r))
                  (harga_saham_harian (snd (save_price_to_supabase stock data w))))"
proof (cases "rows_for (stock_id stock) (date data) (harga_saham_harian w)")
  case Nil
  from assms have "next_ok 2 (harga_faults w)" by (rule no_fault_next_ok)
  from save_price_insert [OF this Nil] show ?thesis by simp
next
  case (Cons r rs)
  from assms have ok: "next_ok 2 (harga_faults w)" by (rule no_fault_next_ok)
  from Cons have "r \<in> set (rows_for (stock_id stock) (date data) (harga_saham_harian w))"
    by simp
  then have "r \<in> set (harga_saham_harian w)" "(saham_id r, close_date r) = (stock_id stock, date data)"
    by (simp_all add: rows_for_def)
  then have "(stock_id stock, date data) \<in>
      set (map (\<lambda>r. (saham_id r, close_date r)) (harga_saham_harian w))"
    by force
  with save_price_keeps_pairs [of w stock data] save_price_update [OF ok Cons]
  show ?thesis by auto
qed


lemma fetch_price_not_Inl: "fetch_price yf symbol w = (Inl e, w1) \<Longrightarrow> False"
  using fetch_price_never_raises [of yf symbol w e] by simp

text \<open>The outcomes of one turn of the loop.\<close>

lemma process_stock_cases:
  "fst (process_stock yf stock w) = Inr () \<and>
   ((yahoo_symbol stock = None \<or> yahoo_symbol stock = Some []) \<and>
      snd (process_stock yf stock w) = logging_warning (Msg_skip (kode stock)) w \<or>
    (\<exists>symbol. yahoo_symbol stock = Some symbol \<and> symbol \<noteq> [] \<and>
       fst (fetch_price yf symbol w) = Inr None \<and>
       snd (process_stock yf stock w) =
         logging_warning (Msg_no_data symbol (kode stock)) (snd (fetch_price yf symbol w))) \<or>
    (\<exists>symbol price e. yahoo_symbol stock = Some symbol \<and> symbol \<noteq> [] \<and>
       fst (fetch_price yf symbol w) = Inr (Some price) \<and>
       fst (save_price_to_supabase stock price (snd (fetch_price yf symbol w))) = Inl e \<and>
       snd (process_stock yf stock w) =
         logging_warning (Msg_save_failed (kode stock) symbol e)
           (snd (save_price_to_supabase stock price (snd (fetch_price yf symbol w))))) \<or>
    (\<exists>symbol price action. yahoo_symbol stock = Some symbol \<and> symbol \<noteq> [] \<and>
       fst (fetch_price yf symbol w) = Inr (Some price) \<and>
       fst (save_price_to_supabase stock price (snd (fetch_price yf symbol w))) = Inr action \<and>
       snd (process_stock yf stock w) =
         logging_info (Msg_saved (kode stock) symbol (date price) (close price) action)
           (snd (save_price_to_supabase stock price (snd (fetch_price yf symbol w))))))"
  by (auto simp: process_stock_def Let_def
      split: option.splits prod.splits sum.splits dest: fetch_price_not_Inl)

lemma process_stock_returns: "fst (process_stock yf stock w) = Inr ()"
  using process_stock_cases [of yf stock w] by simp

lemma for_stocks_step:
  "for_stocks yf (stock # rest) w = for_stocks yf rest (snd (process_stock yf stock w))"
  using process_stock_returns [of yf stock w]
  by (cases "process_stock yf stock w") simp

lemma for_stocks_returns: "fst (for_stocks yf stocks w) = Inr ()"
  by (induction stocks arbitrary: w) (simp_all add: for_stocks_step del: for_stocks.simps(2))

lemma fetch_price_history:
  "history_calls (snd (fetch_price yf symbol w)) = history_calls w @ [(symbol, ''5d'', ''1d'')]"
  by (simp add: fetch_price_eq logging_warning_def split: sum.splits)

text \<open>A turn of the loop only adds to the log and to the requests, keeps every pair of
  instrument and date that has a record, and adds no outcome to come.\<close>

lemma process_stock_mono:
  "set (logs w) \<subseteq> set (logs (snd (process_stock yf stock w))) \<and>
   set (history_calls w) \<subseteq> set (history_calls (snd (process_stock yf stock w))) \<and>
   set (map (\<lambda>r. (saham_id r, close_date r)) (harga_saham_harian w)) \<subseteq>
     set (map (\<lambda>r. (saham_id r, close_date r))
            (harga_saham_harian (snd (process_stock yf stock w)))) \<and>
   set (harga_faults (snd (process_stock yf stock w))) \<subseteq> set (harga_faults w)"
proof -
  let ?key = "\<lambda>r::'a harga_row. (saham_id r, close_date r)"
  have f: "set (logs w) \<subseteq> set (logs (snd (fetch_price yf symbol w)))" for symbol
    using fetch_price_logs [of yf symbol w] by auto
  have s: "set (logs w) \<subseteq> set (logs (snd (save_price_to_supabase stock price (snd (fetch_price yf symbol w)))))"
    "set (history_calls w) \<subseteq> set (history_calls (snd (save_price_to_supabase stock price (snd (fetch_price yf symbol w)))))"
    "set (map ?key (harga_saham_harian w)) \<subseteq>
       set (map ?key (harga_saham_harian (snd (save_price_to_supabase stock price (snd (fetch_price yf symbol w))))))"
    "set (harga_faults (snd (save_price_to_supabase stock price (snd (fetch_price yf symbol w))))) \<subseteq> set (harga_faults w)"
    for symbol price
    using f [of symbol] save_price_keeps_pairs [of "snd (fetch_price yf symbol w)" stock price]
      save_price_faults [of stock price "snd (fetch_price yf symbol w)"]
    by (auto simp: save_price_frame fetch_price_frame fetch_price_history)
  from process_stock_cases [of yf stock w]
  consider (skip) "snd (process_stock yf stock w) = logging_warning (Msg_skip (kode stock)) w"
    | (no_data) symbol where "snd (process_stock yf stock w) =
         logging_warning (Msg_no_data symbol (kode stock)) (snd (fetch_price yf symbol w))"
    | (failed) symbol price e where "snd (process_stock yf stock w) =
         logging_warning (Msg_save_failed (kode stock) symbol e)
           (snd (save_price_to_supabase stock price (snd (fetch_price yf symbol w))))"
    | (saved) symbol price action where "snd (process_stock yf stock w) =
         logging_info (Msg_saved (kode stock) symbol (date price) (close price) action)
           (snd (save_price_to_supabase stock price (snd (fetch_price yf symbol w))))"
    by blast
  then show ?thesis
  proof cases
    case skip
    then show ?thesis by (auto simp: logging_warning_def)
  next
    case no_data
    with f [of symbol] show ?thesis
      by (auto simp: logging_warning_def fetch_price_frame fetch_price_history)
  next
    case failed
    with s [of price symbol] show ?thesis
      by (auto simp: logging_warning_def)
  next
    case saved
    with s [of price symbol] show ?thesis
      by (auto simp: logging_info_def)
  qed
qed

lemma for_stocks_mono:
  "set (logs w) \<subseteq> set (logs (snd (for_stocks yf stocks w))) \<and>
   set (history_calls w) \<subseteq> set (history_calls (snd (for_stocks yf stocks w))) \<and>
   set (map (\<lambda>r. (saham_id r, close_date r)) (harga_saham_harian w)) \<subseteq>
     set (map (\<lambda>r. (saham_id r, close_date r))
            (harga_saham_harian (snd (for_stocks yf stocks w)))) \<and>
   set (harga_faults (snd (for_stocks yf stocks w))) \<subseteq> set (harga_faults w)"
proof (induction stocks arbitrary: w)
  case Nil
  show ?case by simp
next
  case (Cons stock rest)
  from Cons [of "snd (process_stock yf stock w)"] process_stock_mono [of w yf stock]
  show ?case unfolding for_stocks_step by blast
qed

text \<open>A turn of the loop for an instrument that has a symbol and bars, with no query on
  the prices failing.\<close>

lemma process_stock_saves:
  assumes "yahoo_symbol stock = Some symbol" "symbol \<noteq> []"
    and "yf symbol ''5d'' ''1d'' = Inr hist" "hist \<noteq> []"
    and "True \<notin> set (harga_faults w)"
  shows "(symbol, ''5d'', ''1d'') \<in> set (history_calls (snd (process_stock yf stock w))) \<and>
         (\<exists>action. (INFO, Msg_saved (kode stock) symbol (date_isoformat (bar_date (last hist)))
                             (bar_close (last hist)) action)
                      \<in> set (logs (snd (process_stock yf stock w)))) \<and>
         (stock_id stock, date_isoformat (bar_date (last hist))) \<in>
           set (map (\<lambda>r. (saham_id r, close_date r))
                  (harga_saham_harian (snd (process_stock yf stock w))))"
proof -
  let ?price = "\<lparr>date = date_isoformat (bar_date (last hist)), close = bar_close (last hist)\<rparr>"
  let ?wf = "w\<lparr>history_calls := history_calls w @ [(symbol, ''5d'', ''1d'')]\<rparr>"
  let ?ws = "snd (save_price_to_supabase stock ?price ?wf)"
  have fetch: "fetch_price yf symbol w = (Inr (Some ?price), ?wf)"
    using assms(3,4) by (simp add: fetch_price_eq)
  from assms(5) have "True \<notin> set (harga_faults ?wf)" by simp
  from save_price_saves [OF this, of stock ?price]
  obtain action where act: "fst (save_price_to_supabase stock ?price ?wf) = Inr action"
    and pair: "(stock_id stock, date_isoformat (bar_date (last hist))) \<in>
                 set (map (\<lambda>r. (saham_id r, close_date r)) (harga_saham_harian ?ws))"
    by auto
  have run: "snd (process_stock yf stock w) =
               logging_info (Msg_saved (kode stock) symbol (date_isoformat (bar_date (last hist)))
                               (bar_close (last hist)) action) ?ws"
    using assms(1,2) act
    by (cases "save_price_to_supabase stock ?price ?wf")
       (simp add: process_stock_def fetch Let_def)
  have hist: "history_calls ?ws = history_calls w @ [(symbol, ''5d'', ''1d'')]"
    by (simp add: save_price_frame)
  show ?thesis
    using pair by (auto simp: run logging_info_def hist)
qed

lemma for_stocks_saves:
  assumes "s \<in> set stocks" "yahoo_symbol s = Some symbol" "symbol \<noteq> []"
    and "yf symbol ''5d'' ''1d'' = Inr hist" "hist \<noteq> []"
    and "True \<notin> set (harga_faults w)"
  shows "(symbol, ''5d'', ''1d'') \<in> set (history_calls (snd (for_stocks yf stocks w))) \<and>
         (\<exists>action. (INFO, Msg_saved (kode s) symbol (date_isoformat (bar_date (last hist)))
                             (bar_close (last hist)) action)
                      \<in> set (logs (snd (for_stocks yf stocks w)))) \<and>
         (stock_id s, date_isoformat (bar_date (last hist))) \<in>
           set (map (\<lambda>r. (saham_id r, close_date r))
                  (harga_saham_harian (snd (for_stocks yf stocks w))))"
  using assms(1,6)
proof (induction stocks arbitrary: w)
  case Nil
  then show ?case by simp
next
  case (Cons x xs)
  let ?w1 = "snd (process_stock yf x w)"
  from Cons.prems(2) process_stock_mono [of w yf x]
  have faults: "True \<notin> set (harga_faults ?w1)" by blast
  show ?case
  proof (cases "s = x")
    case True
    from process_stock_saves [of s symbol yf hist w, OF assms(2-5) Cons.prems(2)] True
    have "(symbol, ''5d'', ''1d'') \<in> set (history_calls ?w1) \<and>
         (\<exists>action. (INFO, Msg_saved (kode s) symbol (date_isoformat (bar_date (last hist)))
                             (bar_close (last hist)) action) \<in> set (logs ?w1)) \<and>
         (stock_id s, date_isoformat (bar_date (last hist))) \<in>
           set (map (\<lambda>r. (saham_id r, close_date r)) (harga_saham_harian ?w1))"
      by simp
    with for_stocks_mono [of ?w1 yf xs] show ?thesis
      unfolding for_stocks_step by blast
  next
    case False
    with Cons.prems(1) have "s \<in> set xs" by simp
    from Cons.IH [OF this faults] show ?thesis
      unfolding for_stocks_step .
  qed
qed

text \<open>With no failing query, the upsert leaves a record of the pair that holds the price.\<close>

lemma save_price_stores:
  assumes "True \<notin> set (harga_faults w)"
  shows "\<exists>r \<in> set (harga_saham_harian (snd (save_price_to_supabase stock data w))).
           saham_id r = stock_id stock \<and> close_date r = date data \<and> close_price r = close data"
proof (cases "rows_for (stock_id stock) (date data) (harga_saham_harian w)")
  case Nil
  from assms have "next_ok 2 (harga_faults w)" by (rule no_fault_next_ok)
  from save_price_insert [OF this Nil] show ?thesis by simp
next
  case (Cons r0 rs)
  from assms have ok: "next_ok 2 (harga_faults w)" by (rule no_fault_next_ok)
  from Cons have "r0 \<in> set (rows_for (stock_id stock) (date data) (harga_saham_harian w))"
    by simp
  then have r0: "r0 \<in> set (harga_saham_harian w)" "saham_id r0 = stock_id stock"
    "close_date r0 = date data"
    by (simp_all add: rows_for_def)
  let ?f = "\<lambda>x. if harga_id x = harga_id r0 then x\<lparr>close_price := close data\<rparr> else x"
  have "r0\<lparr>close_price := close data\<rparr> \<in> set (map ?f (harga_saham_harian w))"
    unfolding set_map image_iff using r0(1) by (intro bexI [of _ r0]) simp_all
  with r0(2,3) save_price_update [OF ok Cons] show ?thesis
    by (intro bexI [of _ "r0\<lparr>close_price := close data\<rparr>"]) simp_all
qed

text \<open>Where ids are a key, an upsert for another pair leaves a record as it is.\<close>

lemma save_price_keeps_record:
  assumes "distinct (map harga_id (harga_saham_harian w))"
    and "r \<in> set (harga_saham_harian w)"
    and "(saham_id r, close_date r) \<noteq> (stock_id stock, date data)"
  shows "r \<in> set (harga_saham_harian (snd (save_price_to_supabase stock data w)))"
proof -
  let ?rows = "harga_saham_harian w"
  let ?rows' = "harga_saham_harian (snd (save_price_to_supabase stock data w))"
  from save_price_cases [of stock data w]
  consider (same) "?rows' = ?rows"
    | (update) r0 rs where "rows_for (stock_id stock) (date data) ?rows = r0 # rs"
        "?rows' = map (\<lambda>x. if harga_id x = harga_id r0 then x\<lparr>close_price := close data\<rparr> else x)
                    ?rows"
    | (insert) row where "?rows' = ?rows @ [row]"
    by blast
  then show ?thesis
  proof cases
    case same
    with assms(2) show ?thesis by simp
  next
    case update
    from update(1) have "r0 \<in> set (rows_for (stock_id stock) (date data) ?rows)" by simp
    then have r0: "r0 \<in> set ?rows" "(saham_id r0, close_date r0) = (stock_id stock, date data)"
      by (simp_all add: rows_for_def)
    with assms(3) have "r \<noteq> r0" by auto
    with assms(1,2) r0(1) have "harga_id r \<noteq> harga_id r0"
      by (auto simp: distinct_map dest: inj_onD)
    then have "r = (if harga_id r = harga_id r0 then r\<lparr>close_price := close data\<rparr> else r)"
      by simp
    with assms(2) show ?thesis unfolding update(2) set_map image_iff
      by (intro bexI [of _ r])
  next
    case insert
    with assms(2) show ?thesis by simp
  qed
qed


text \<open>What a turn of the loop does to the prices is what its upsert does, if it has one.\<close>

lemma process_stock_harga:
  "harga_saham_harian (snd (process_stock yf stock w)) = harga_saham_harian w \<or>
   (\<exists>price symbol.
      harga_saham_harian (snd (process_stock yf stock w)) =
        harga_saham_harian
          (snd (save_price_to_supabase stock price (snd (fetch_price yf symbol w)))))"
proof -
  from process_stock_cases [of yf stock w]
  consider (skip) "snd (process_stock yf stock w) = logging_warning (Msg_skip (kode stock)) w"
    | (no_data) symbol where "snd (process_stock yf stock w) =
         logging_warning (Msg_no_data symbol (kode stock)) (snd (fetch_price yf symbol w))"
    | (failed) symbol price e where "snd (process_stock yf stock w) =
         logging_warning (Msg_save_failed (kode stock) symbol e)
           (snd (save_price_to_supabase stock price (snd (fetch_price yf symbol w))))"
    | (saved) symbol price action where "snd (process_stock yf stock w) =
         logging_info (Msg_saved (kode stock) symbol (date price) (close price) action)
           (snd (save_price_to_supabase stock price (snd (fetch_price yf symbol w))))"
    by blast
  then show ?thesis
  proof cases
    case skip
    then show ?thesis by (simp add: logging_warning_def)
  next
    case no_data
    then show ?thesis by (simp add: logging_warning_def fetch_price_frame)
  next
    case failed
    then have "harga_saham_harian (snd (process_stock yf stock w)) =
        harga_saham_harian
          (snd (save_price_to_supabase stock price (snd (fetch_price yf symbol w))))"
      by (simp add: logging_warning_def)
    then show ?thesis by blast
  next
    case saved
    then have "harga_saham_harian (snd (process_stock yf stock w)) =
        harga_saham_harian
          (snd (save_price_to_supabase stock price (snd (fetch_price yf symbol w))))"
      by (simp add: logging_info_def)
    then show ?thesis by blast
  qed
qed

lemma process_stock_keeps_ids_distinct:
  assumes "distinct (map harga_id (harga_saham_harian w))"
  shows "distinct (map harga_id (harga_saham_harian (snd (process_stock yf stock w))))"
proof -
  have "distinct (map harga_id (harga_saham_harian
          (snd (save_price_to_supabase stock price (snd (fetch_price yf symbol w))))))"
    for price symbol
    using assms by (intro save_price_keeps_ids_distinct) (simp add: fetch_price_frame)
  with process_stock_harga [of yf stock w] assms show ?thesis by auto
qed

lemma process_stock_keeps_record:
  assumes "distinct (map harga_id (harga_saham_harian w))"
    and "r \<in> set (harga_saham_harian w)" and "saham_id r \<noteq> stock_id stock"
  shows "r \<in> set (harga_saham_harian (snd (process_stock yf stock w)))"
proof -
  have "r \<in> set (harga_saham_harian
          (snd (save_price_to_supabase stock price (snd (fetch_price yf symbol w)))))"
    for price symbol
    using assms by (intro save_price_keeps_record) (simp_all add: fetch_price_frame)
  with process_stock_harga [of yf stock w] assms(2) show ?thesis by auto
qed

lemma process_stock_stores:
  assumes "yahoo_symbol stock = Some symbol" "symbol \<noteq> []"
    and "yf symbol ''5d'' ''1d'' = Inr hist" "hist \<noteq> []"
    and "True \<notin> set (harga_faults w)"
  shows "\<exists>r \<in> set (harga_saham_harian (snd (process_stock yf stock w))).
           saham_id r = stock_id stock \<and>
           close_date r = date_isoformat (bar_date (last hist)) \<and>
           close_price r = bar_close (last hist)"
proof -
  let ?price = "\<lparr>date = date_isoformat (bar_date (last hist)), close = bar_close (last hist)\<rparr>"
  let ?wf = "w\<lparr>history_calls := history_calls w @ [(symbol, ''5d'', ''1d'')]\<rparr>"
  let ?ws = "snd (save_price_to_supabase stock ?price ?wf)"
  have fetch: "fetch_price yf symbol w = (Inr (Some ?price), ?wf)"
    using assms(3,4) by (simp add: fetch_price_eq)
  from assms(5) have nf: "True \<notin> set (harga_faults ?wf)" by simp
  have "harga_saham_harian (snd (process_stock yf stock w)) = harga_saham_harian ?ws"
    using assms(1,2)
    by (cases "save_price_to_supabase stock ?price ?wf")
       (simp add: process_stock_def fetch Let_def logging_info_def logging_warning_def
          split: sum.splits)
  with save_price_stores [OF nf, of stock ?price] show ?thesis by simp
qed

lemma for_stocks_keeps_ids_distinct:
  "distinct (map harga_id (harga_saham_harian w)) \<Longrightarrow>
   distinct (map harga_id (harga_saham_harian (snd (for_stocks yf stocks w))))"
proof (induction stocks arbitrary: w)
  case Nil
  then show ?case by simp
next
  case (Cons stock rest)
  from Cons.prems have "distinct (map harga_id (harga_saham_harian (snd (process_stock yf stock w))))"
    by (rule process_stock_keeps_ids_distinct)
  from Cons.IH [OF this] show ?case unfolding for_stocks_step .
qed

lemma for_stocks_keeps_record:
  assumes "distinct (map harga_id (harga_saham_harian w))"
    and "r \<in> set (harga_saham_harian w)"
    and "\<forall>x \<in> set stocks. stock_id x \<noteq> saham_id r"
  shows "r \<in> set (harga_saham_harian (snd (for_stocks yf stocks w)))"
  using assms
proof (induction stocks arbitrary: w)
  case Nil
  then show ?case by simp
next
  case (Cons stock rest)
  let ?w1 = "snd (process_stock yf stock w)"
  from Cons.prems(1) have d: "distinct (map harga_id (harga_saham_harian ?w1))"
    by (rule process_stock_keeps_ids_distinct)
  from Cons.prems(3) have ne: "saham_id r \<noteq> stock_id stock" by auto
  from process_stock_keeps_record [OF Cons.prems(1,2) ne]
  have r: "r \<in> set (harga_saham_harian ?w1)" .
  from Cons.prems(3) have "\<forall>x \<in> set rest. stock_id x \<noteq> saham_id r" by simp
  from Cons.IH [OF d r this] show ?case unfolding for_stocks_step .
qed

text \<open>
  At the end of the loop the price of each instrument that had data is stored, when the
  ids of the instruments and of the records are keys and no query on the prices fails.
\<close>

lemma for_stocks_stores:
  assumes "s \<in> set stocks" "yahoo_symbol s = Some symbol" "symbol \<noteq> []"
    and "yf symbol ''5d'' ''1d'' = Inr hist" "hist \<noteq> []"
    and "True \<notin> set (harga_faults w)"
    and "distinct (map stock_id stocks)"
    and "distinct (map harga_id (harga_saham_harian w))"
  shows "\<exists>r \<in> set (harga_saham_harian (snd (for_stocks yf stocks w))).
           saham_id r = stock_id s \<and>
           close_date r = date_isoformat (bar_date (last hist)) \<and>
           close_price r = bar_close (last hist)"
  using assms(1,6,7,8)
proof (induction stocks arbitrary: w)
  case Nil
  then show ?case by simp
next
  case (Cons x xs)
  let ?w1 = "snd (process_stock yf x w)"
  from Cons.prems(2) process_stock_mono [of w yf x]
  have faults: "True \<notin> set (harga_faults ?w1)" by blast
  from Cons.prems(4) have ids: "distinct (map harga_id (harga_saham_harian ?w1))"
    by (rule process_stock_keeps_ids_distinct)
  from Cons.prems(3) have dxs: "distinct (map stock_id xs)" by simp
  show ?case
  proof (cases "s = x")
    case True
    from process_stock_stores [of s symbol yf hist w, OF assms(2-5) Cons.prems(2)] True
    obtain r where r: "r \<in> set (harga_saham_harian ?w1)" "saham_id r = stock_id s"
      "close_date r = date_isoformat (bar_date (last hist))"
      "close_price r = bar_close (last hist)"
      by auto
    from Cons.prems(3) True have notin: "stock_id s \<notin> stock_id ` set xs" by simp
    have "\<forall>y \<in> set xs. stock_id y \<noteq> saham_id r"
      unfolding r(2)
    proof
      fix y assume "y \<in> set xs"
      then have "stock_id y \<in> stock_id ` set xs" by (rule imageI)
      with notin show "stock_id y \<noteq> stock_id s" by auto
    qed
    from for_stocks_keeps_record [OF ids r(1) this, of yf] r(2-4)
    show ?thesis unfolding for_stocks_step by blast
  next
    case False
    with Cons.prems(1) have "s \<in> set xs" by simp
    from Cons.IH [OF this faults dxs ids] show ?thesis
      unfolding for_stocks_step .
  qed
qed

lemma date_isoformat_friday: "date_isoformat friday = ''2024-03-01''"
  by (simp add: iso_defs friday_def)

text \<open>The three turns of the loop on the example batch, from the world with the old price.\<close>

lemma process_bbca:
  "process_stock yf_example bbca world_old =
     (Inr (),
      empty_world\<lparr>harga_saham_harian := [row_9500],
        history_calls := [(''BBCA.JK'', ''5d'', ''1d'')],
        logs := [(INFO, Msg_saved (Some ''BBCA'') ''BBCA.JK'' ''2024-03-01'' 9500 ''update'')]\<rparr>)"
  by (simp add: process_stock_def fetch_price_eq yf_example_def bars_bbca_def bbca_def
      date_isoformat_friday save_price_eval logging_info_def world_old_def empty_world_def
      row_old_def row_9500_def)

lemma process_nope:
  "process_stock yf_example nope
     (empty_world\<lparr>harga_saham_harian := [row_9500],
        history_calls := [(''BBCA.JK'', ''5d'', ''1d'')],
        logs := [(INFO, Msg_saved (Some ''BBCA'') ''BBCA.JK'' ''2024-03-01'' 9500 ''update'')]\<rparr>) =
     (Inr (),
      empty_world\<lparr>harga_saham_harian := [row_9500],
        history_calls := [(''BBCA.JK'', ''5d'', ''1d''), (''NOPE.JK'', ''5d'', ''1d'')],
        logs := [(INFO, Msg_saved (Some ''BBCA'') ''BBCA.JK'' ''2024-03-01'' 9500 ''update''),
                 (WARNING, Msg_yf_failed ''NOPE.JK'' ProviderError),
                 (WARNING, Msg_no_data ''NOPE.JK'' (Some ''NOPE''))]\<rparr>)"
  by (simp add: process_stock_def fetch_price_eq yf_example_def nope_def
      logging_warning_def empty_world_def)

lemma process_bbri:
  "process_stock yf_example bbri
     (empty_world\<lparr>harga_saham_harian := [row_9500],
        history_calls := [(''BBCA.JK'', ''5d'', ''1d''), (''NOPE.JK'', ''5d'', ''1d'')],
        logs := [(INFO, Msg_saved (Some ''BBCA'') ''BBCA.JK'' ''2024-03-01'' 9500 ''update''),
                 (WARNING, Msg_yf_failed ''NOPE.JK'' ProviderError),
                 (WARNING, Msg_no_data ''NOPE.JK'' (Some ''NOPE''))]\<rparr>) =
     (Inr (),
      empty_world\<lparr>harga_saham_harian := [row_9500, row_5000],
        history_calls := [(''BBCA.JK'', ''5d'', ''1d''), (''NOPE.JK'', ''5d'', ''1d''),
                          (''BBRI.JK'', ''5d'', ''1d'')],
        logs := [(INFO, Msg_saved (Some ''BBCA'') ''BBCA.JK'' ''2024-03-01'' 9500 ''update''),
                 (WARNING, Msg_yf_failed ''NOPE.JK'' ProviderError),
                 (WARNING, Msg_no_data ''NOPE.JK'' (Some ''NOPE'')),
                 (INFO, Msg_saved (Some ''BBRI'') ''BBRI.JK'' ''2024-03-01'' 5000 ''insert'')]\<rparr>)"
  by (simp add: process_stock_def fetch_price_eq yf_example_def bbri_def
      date_isoformat_friday save_price_eval logging_info_def empty_world_def row_9500_def
      row_5000_def)

lemma for_stocks_batch:
  "for_stocks yf_example batch world_old =
     (Inr (),
      empty_world\<lparr>harga_saham_harian := [row_9500, row_5000],
        history_calls := [(''BBCA.JK'', ''5d'', ''1d''), (''NOPE.JK'', ''5d'', ''1d''),
                          (''BBRI.JK'', ''5d'', ''1d'')],
        logs := [(INFO, Msg_saved (Some ''BBCA'') ''BBCA.JK'' ''2024-03-01'' 9500 ''update''),
                 (WARNING, Msg_yf_failed ''NOPE.JK'' ProviderError),
                 (WARNING, Msg_no_data ''NOPE.JK'' (Some ''NOPE'')),
                 (INFO, Msg_saved (Some ''BBRI'') ''BBRI.JK'' ''2024-03-01'' 5000 ''insert'')]\<rparr>)"
  unfolding batch_def for_stocks_step process_bbca snd_conv process_nope process_bbri
  by simp

text \<open>
  C7. The loop over the instruments never ends with an exception, and a turn of the loop
  never does: after any outcome for one instrument the loop goes on with the instruments
  that follow, from the world that turn left. A fetch without data (the provider raised
  or had no bar) is logged as a warning and leaves the prices untouched; a save that
  raises is logged as a warning. A turn for an instrument that has a symbol for which the
  provider has bars, when no query on the prices raises, leaves a record of the
  instrument and of the date of the last bar that holds the close of that bar. Whatever
  happens to the other instruments of the batch, for every instrument of it that has
  such a symbol, when no query on the prices raises, the provider is asked for that
  symbol and the save of its last bar is logged as done; and when the ids of the
  instruments of the batch and of the stored records are keys, the table at the end of
  the loop has a record of the instrument and the date that holds the close of the bar.
  So in a batch of three where the provider fails for one symbol the other two are
  fetched and their prices stored.
\<close>

theorem for_stocks_continues:
  "fst (for_stocks yf stocks w) = Inr () \<and>
   fst (process_stock yf stock w) = Inr () \<and>
   for_stocks yf (stock # rest) w = for_stocks yf rest (snd (process_stock yf stock w)) \<and>
   (\<forall>symbol. yahoo_symbol stock = Some symbol \<and> symbol \<noteq> [] \<and>
      fst (fetch_price yf symbol w) = Inr None \<longrightarrow>
        (WARNING, Msg_no_data symbol (kode stock)) \<in> set (logs (snd (process_stock yf stock w))) \<and>
        harga_saham_harian (snd (process_stock yf stock w)) = harga_saham_harian w) \<and>
   (\<forall>symbol price e. yahoo_symbol stock = Some symbol \<and> symbol \<noteq> [] \<and>
      fst (fetch_price yf symbol w) = Inr (Some price) \<and>
      fst (save_price_to_supabase stock price (snd (fetch_price yf symbol w))) = Inl e \<longrightarrow>
        (WARNING, Msg_save_failed (kode stock) symbol e)
          \<in> set (logs (snd (process_stock yf stock w)))) \<and>
   (\<forall>symbol hist. yahoo_symbol stock = Some symbol \<and> symbol \<noteq> [] \<and>
      yf symbol ''5d'' ''1d'' = Inr hist \<and> hist \<noteq> [] \<and> True \<notin> set (harga_faults w) \<longrightarrow>
        (\<exists>r \<in> set (harga_saham_harian (snd (process_stock yf stock w))).
            saham_id r = stock_id stock \<and>
            close_date r = date_isoformat (bar_date (last hist)) \<and>
            close_price r = bar_close (last hist))) \<and>
   (\<forall>s symbol hist. s \<in> set stocks \<and> yahoo_symbol s = Some symbol \<and> symbol \<noteq> [] \<and>
      yf symbol ''5d'' ''1d'' = Inr hist \<and> hist \<noteq> [] \<and> True \<notin> set (harga_faults w) \<longrightarrow>
        (symbol, ''5d'', ''1d'') \<in> set (history_calls (snd (for_stocks yf stocks w))) \<and>
        (\<exists>action. (INFO, Msg_saved (kode s) symbol (date_isoformat (bar_date (last hist)))
                            (bar_close (last hist)) action)
                     \<in> set (logs (snd (for_stocks yf stocks w)))) \<and>
        (\<exists>r \<in> set (harga_saham_harian (snd (for_stocks yf stocks w))).
            saham_id r = stock_id s \<and>
            close_date r = date_isoformat (bar_date (last hist))) \<and>
        (distinct (map stock_id stocks) \<and> distinct (map harga_id (harga_saham_harian w)) \<longrightarrow>
           (\<exists>r \<in> set (harga_saham_harian (snd (for_stocks yf stocks w))).
               saham_id r = stock_id s \<and>
               close_date r = date_isoformat (bar_date (last hist)) \<and>
               close_price r = bar_close (last hist))))"
proof (intro conjI allI impI)
  show "fst (for_stocks yf stocks w) = Inr ()" by (rule for_stocks_returns)
  show "fst (process_stock yf stock w) = Inr ()" by (rule process_stock_returns)
  show "for_stocks yf (stock # rest) w = for_stocks yf rest (snd (process_stock yf stock w))"
    by (rule for_stocks_step)
next
  fix symbol
  assume a: "yahoo_symbol stock = Some symbol \<and> symbol \<noteq> [] \<and>
      fst (fetch_price yf symbol w) = Inr None"
  then have run: "snd (process_stock yf stock w) =
      logging_warning (Msg_no_data symbol (kode stock)) (snd (fetch_price yf symbol w))"
    by (cases "fetch_price yf symbol w") (simp add: process_stock_def Let_def)
  show "(WARNING, Msg_no_data symbol (kode stock)) \<in> set (logs (snd (process_stock yf stock w)))"
    by (simp add: run logging_warning_def)
  show "harga_saham_harian (snd (process_stock yf stock w)) = harga_saham_harian w"
    by (simp add: run logging_warning_def fetch_price_frame)
next
  fix symbol price e
  assume a: "yahoo_symbol stock = Some symbol \<and> symbol \<noteq> [] \<and>
      fst (fetch_price yf symbol w) = Inr (Some price) \<and>
      fst (save_price_to_supabase stock price (snd (fetch_price yf symbol w))) = Inl e"
  then have "snd (process_stock yf stock w) =
      logging_warning (Msg_save_failed (kode stock) symbol e)
        (snd (save_price_to_supabase stock price (snd (fetch_price yf symbol w))))"
    by (cases "fetch_price yf symbol w";
        cases "save_price_to_supabase stock price (snd (fetch_price yf symbol w))")
       (simp add: process_stock_def Let_def)
  then show "(WARNING, Msg_save_failed (kode stock) symbol e)
          \<in> set (logs (snd (process_stock yf stock w)))"
    by (simp add: logging_warning_def)
next
  fix symbol hist
  assume "yahoo_symbol stock = Some symbol \<and> symbol \<noteq> [] \<and>
      yf symbol ''5d'' ''1d'' = Inr hist \<and> hist \<noteq> [] \<and> True \<notin> set (harga_faults w)"
  then have s: "yahoo_symbol stock = Some symbol" "symbol \<noteq> []"
      "yf symbol ''5d'' ''1d'' = Inr hist" "hist \<noteq> []" "True \<notin> set (harga_faults w)"
    by simp_all
  show "\<exists>r \<in> set (harga_saham_harian (snd (process_stock yf stock w))).
            saham_id r = stock_id stock \<and>
            close_date r = date_isoformat (bar_date (last hist)) \<and>
            close_price r = bar_close (last hist)"
    by (rule process_stock_stores [of stock symbol yf hist w, OF s])
next
  fix s symbol hist
  assume a: "s \<in> set stocks \<and> yahoo_symbol s = Some symbol \<and> symbol \<noteq> [] \<and>
      yf symbol ''5d'' ''1d'' = Inr hist \<and> hist \<noteq> [] \<and> True \<notin> set (harga_faults w)"
  then have s: "s \<in> set stocks" "yahoo_symbol s = Some symbol" "symbol \<noteq> []"
      "yf symbol ''5d'' ''1d'' = Inr hist" "hist \<noteq> []" "True \<notin> set (harga_faults w)"
    by simp_all
  note t = for_stocks_saves [of s stocks symbol yf hist w, OF s]
  from t show "(symbol, ''5d'', ''1d'') \<in> set (history_calls (snd (for_stocks yf stocks w)))"
    by simp
  from t show "\<exists>action. (INFO, Msg_saved (kode s) symbol (date_isoformat (bar_date (last hist)))
                            (bar_close (last hist)) action)
                     \<in> set (logs (snd (for_stocks yf stocks w)))"
    by simp
  from t have "(stock_id s, date_isoformat (bar_date (last hist))) \<in>
           set (map (\<lambda>r. (saham_id r, close_date r))
                  (harga_saham_harian (snd (for_stocks yf stocks w))))"
    by simp
  then show "\<exists>r \<in> set (harga_saham_harian (snd (for_stocks yf stocks w))).
            saham_id r = stock_id s \<and>
            close_date r = date_isoformat (bar_date (last hist))"
    by auto
  assume "distinct (map stock_id stocks) \<and> distinct (map harga_id (harga_saham_harian w))"
  then have d: "distinct (map stock_id stocks)" "distinct (map harga_id (harga_saham_harian w))"
    by simp_all
  show "\<exists>r \<in> set (harga_saham_harian (snd (for_stocks yf stocks w))).
            saham_id r = stock_id s \<and>
            close_date r = date_isoformat (bar_date (last hist)) \<and>
            close_price r = bar_close (last hist)"
    by (rule for_stocks_stores [of s stocks symbol yf hist w, OF s d])
qed

theorem for_stocks_continues_witness:
  "yf_example ''NOPE.JK'' ''5d'' ''1d'' = Inl ProviderError \<and>
   fst (fetch_price yf_example ''NOPE.JK'' world_old) = Inr None \<and>
   True \<notin> set (harga_faults world_old) \<and>
   distinct (map stock_id batch) \<and> distinct (map harga_id (harga_saham_harian world_old)) \<and>
   harga_saham_harian world_old = [row_old] \<and> close_price row_old = 9400 \<and>
   fst (for_stocks yf_example batch world_old) = Inr () \<and>
   harga_saham_harian (snd (process_stock yf_example nope world_old)) = [row_old] \<and>
   (WARNING, Msg_no_data ''NOPE.JK'' (Some ''NOPE''))
     \<in> set (logs (snd (process_stock yf_example nope world_old))) \<and>
   (''BBCA.JK'', ''5d'', ''1d'') \<in> set (history_calls (snd (for_stocks yf_example batch world_old))) \<and>
   (''BBRI.JK'', ''5d'', ''1d'') \<in> set (history_calls (snd (for_stocks yf_example batch world_old))) \<and>
   harga_saham_harian (snd (process_stock yf_example bbca world_old)) = [row_9500] \<and>
   close_price row_9500 = 9500 \<and>
   harga_saham_harian (snd (for_stocks yf_example batch world_old)) = [row_9500, row_5000]"
proof -
  note t = for_stocks_continues [of yf_example batch world_old nope "[bbri]"]
  note u = for_stocks_continues [of yf_example batch world_old bbca "[nope, bbri]"]
  have p: "yf_example ''NOPE.JK'' ''5d'' ''1d'' = Inl ProviderError"
    "yf_example ''BBCA.JK'' ''5d'' ''1d'' = Inr bars_bbca"
    "yf_example ''BBRI.JK'' ''5d'' ''1d'' = Inr [\<lparr>bar_date = friday, bar_close = 5000\<rparr>]"
    by (simp_all add: yf_example_def)
  have f: "fst (fetch_price yf_example ''NOPE.JK'' world_old) = Inr None"
    by (simp add: fetch_price_eq p)
  have h: "True \<notin> set (harga_faults world_old)" "harga_saham_harian world_old = [row_old]"
    "distinct (map harga_id (harga_saham_harian world_old))"
    by (simp_all add: world_old_def empty_world_def)
  have s: "bbca \<in> set batch" "bbri \<in> set batch" "yahoo_symbol bbca = Some ''BBCA.JK''"
    "yahoo_symbol bbri = Some ''BBRI.JK''" "yahoo_symbol nope = Some ''NOPE.JK''"
    "kode nope = Some ''NOPE''" "bars_bbca \<noteq> []" "distinct (map stock_id batch)"
    by (simp_all add: batch_def bbca_def bbri_def nope_def bars_bbca_def)
  have c: "close_price row_old = 9400" "close_price row_9500 = 9500"
    by (simp_all add: row_old_def row_9500_def)
  from t f s(5,6) have no_data:
    "(WARNING, Msg_no_data ''NOPE.JK'' (Some ''NOPE''))
       \<in> set (logs (snd (process_stock yf_example nope world_old))) \<and>
     harga_saham_harian (snd (process_stock yf_example nope world_old)) =
       harga_saham_harian world_old"
    by auto
  from t p(2) s(1,3,7) h(1)
  have a: "(''BBCA.JK'', ''5d'', ''1d'') \<in> set (history_calls (snd (for_stocks yf_example batch world_old)))"
    by blast
  from t p(3) s(2,4) h(1)
  have b: "(''BBRI.JK'', ''5d'', ''1d'') \<in> set (history_calls (snd (for_stocks yf_example batch world_old)))"
    by blast
  from u p(2) s(3,7) h(1)
  have stored: "\<exists>r \<in> set (harga_saham_harian (snd (process_stock yf_example bbca world_old))).
      saham_id r = stock_id bbca \<and>
      close_date r = date_isoformat (bar_date (last bars_bbca)) \<and>
      close_price r = bar_close (last bars_bbca)"
    by blast
  from t have r: "fst (for_stocks yf_example batch world_old) = Inr ()" by simp
  have e: "harga_saham_harian (snd (process_stock yf_example bbca world_old)) = [row_9500]"
    "harga_saham_harian (snd (for_stocks yf_example batch world_old)) = [row_9500, row_5000]"
    by (simp_all add: process_bbca for_stocks_batch)
  show ?thesis using p(1) f h s(8) c no_data a b r e stored by simp
qed

section \<open>The run\<close>

text \<open>The steps before the status record do not look at the outcomes of the status queries.\<close>

lemma get_tracked_stocks_status_faults:
  "get_tracked_stocks (w\<lparr>status_faults := fs\<rparr>) =
     (fst (get_tracked_stocks w), (snd (get_tracked_stocks w))\<lparr>status_faults := fs\<rparr>)"
  by (simp add: get_tracked_stocks_def select_saham_tracked_def execute_eq logging_info_def
      Let_def)

lemma fetch_price_status_faults:
  "fetch_price yf symbol (w\<lparr>status_faults := fs\<rparr>) =
     (fst (fetch_price yf symbol w), (snd (fetch_price yf symbol w))\<lparr>status_faults := fs\<rparr>)"
  by (simp add: fetch_price_eq logging_warning_def split: sum.splits)

lemma save_price_status_faults:
  "save_price_to_supabase stock data (w\<lparr>status_faults := fs\<rparr>) =
     (fst (save_price_to_supabase stock data w),
      (snd (save_price_to_supabase stock data w))\<lparr>status_faults := fs\<rparr>)"
  by (simp add: save_price_to_supabase_def harga_query_defs Let_def split: list.splits)

lemma process_stock_status_faults:
  "process_stock yf stock (w\<lparr>status_faults := fs\<rparr>) =
     (fst (process_stock yf stock w), (snd (process_stock yf stock w))\<lparr>status_faults := fs\<rparr>)"
  by (simp add: process_stock_def fetch_price_status_faults save_price_status_faults Let_def
      logging_warning_def logging_info_def
      split: option.splits prod.splits sum.splits)

lemma for_stocks_status_faults:
  "for_stocks yf stocks (w\<lparr>status_faults := fs\<rparr>) =
     (fst (for_stocks yf stocks w), (snd (for_stocks yf stocks w))\<lparr>status_faults := fs\<rparr>)"
proof (induction stocks arbitrary: w)
  case Nil
  show ?case by simp
next
  case (Cons stock rest)
  show ?case
    unfolding for_stocks_step process_stock_status_faults snd_conv
    by (rule Cons)
qed

lemma update_system_status_frame:
  "harga_saham_harian (snd (update_system_status now_jkt market_hours w)) = harga_saham_harian w \<and>
   saham (snd (update_system_status now_jkt market_hours w)) = saham w \<and>
   logs (snd (update_system_status now_jkt market_hours w)) = logs w \<and>
   history_calls (snd (update_system_status now_jkt market_hours w)) = history_calls w"
  by (simp add: update_system_status_def status_query_defs Let_def)

lemma update_system_status_raises:
  "status_faults w = True # fs \<Longrightarrow>
   fst (update_system_status now_jkt market_hours w) = Inl StoreError"
  by (simp add: update_system_status_def status_query_defs Let_def)

lemma get_tracked_stocks_ok:
  assumes "next_ok 1 (saham_faults w)"
  shows "\<exists>stocks. fst (get_tracked_stocks w) = Inr stocks"
  using assms
  by (simp add: get_tracked_stocks_def select_saham_tracked_def execute_eq next_ok_Suc Let_def)

lemma run_once_eq:
  assumes "next_ok 1 (saham_faults w)"
  shows "run_once yf now_jkt w =
     (case update_system_status now_jkt (is_market_hours now_jkt) (after_loop yf now_jkt w) of
        (Inl e, w6) \<Rightarrow> (Inr (), logging_warning (Msg_status_failed e) w6)
      | (Inr u, w6) \<Rightarrow> (Inr (), w6))"
proof -
  let ?w2 = "logging_info (Msg_start (isoformat now_jkt) (date_isoformat (dt_date now_jkt)))
                 (logging_info (Msg_run_once (isoformat now_jkt) (is_market_hours now_jkt)) w)"
  have "next_ok 1 (saham_faults ?w2)" using assms by (simp add: logging_info_def)
  from get_tracked_stocks_ok [OF this] obtain stocks
    where g: "fst (get_tracked_stocks ?w2) = Inr stocks" by blast
  let ?w4 = "logging_info (Msg_will_fetch (length stocks)) (snd (get_tracked_stocks ?w2))"
  have l: "fst (for_stocks yf stocks ?w4) = Inr ()" by (rule for_stocks_returns)
  show ?thesis
    using g l
    by (cases "get_tracked_stocks ?w2"; cases "for_stocks yf stocks ?w4")
       (simp add: run_once_def after_loop_def Let_def)
qed


lemma logging_info_status_faults:
  "logging_info m (w\<lparr>status_faults := fs\<rparr>) = (logging_info m w)\<lparr>status_faults := fs\<rparr>"
  by (simp add: logging_info_def)

lemma after_loop_status_faults:
  "after_loop yf now_jkt (w\<lparr>status_faults := fs\<rparr>) =
     (after_loop yf now_jkt w)\<lparr>status_faults := fs\<rparr>"
  by (simp add: after_loop_def Let_def logging_info_status_faults
      get_tracked_stocks_status_faults for_stocks_status_faults)

lemma after_loop_keeps_status_faults:
  "status_faults (after_loop yf now_jkt w) = status_faults w"
proof -
  have "after_loop yf now_jkt (w\<lparr>status_faults := status_faults w\<rparr>) =
          (after_loop yf now_jkt w)\<lparr>status_faults := status_faults w\<rparr>"
    by (rule after_loop_status_faults)
  then have "after_loop yf now_jkt w = (after_loop yf now_jkt w)\<lparr>status_faults := status_faults w\<rparr>"
    by simp
  then have "status_faults (after_loop yf now_jkt w) =
             status_faults ((after_loop yf now_jkt w)\<lparr>status_faults := status_faults w\<rparr>)"
    by simp
  then show ?thesis by simp
qed

lemma run_once_harga:
  assumes "next_ok 1 (saham_faults w)"
  shows "harga_saham_harian (snd (run_once yf now_jkt w)) =
           harga_saham_harian (after_loop yf now_jkt w)"
  unfolding run_once_eq [OF assms]
  using update_system_status_frame
    [of now_jkt "is_market_hours now_jkt" "after_loop yf now_jkt w"]
  by (cases "update_system_status now_jkt (is_market_hours now_jkt) (after_loop yf now_jkt w)")
     (auto simp: logging_warning_def split: sum.splits)

text \<open>A failure of the query for the tracked instruments is not caught by the run.\<close>

lemma run_once_loader_raises:
  "saham_faults w = True # fs \<Longrightarrow> fst (run_once yf now_jkt w) = Inl StoreError"
  by (simp add: run_once_def get_tracked_stocks_def select_saham_tracked_def execute_def
      logging_info_def Let_def)

lemma after_loop_batch:
  "harga_saham_harian (after_loop yf_example friday_10 world_batch) = [row_9500, row_5000]"
  by (simp add: after_loop_def get_tracked_stocks_def select_saham_tracked_def execute_def
      logging_info_def logging_warning_def world_batch_def empty_world_def batch_def
      bbca_def nope_def bbri_def process_stock_def fetch_price_eq yf_example_def bars_bbca_def
      date_isoformat_friday save_price_eval row_9500_def row_5000_def Let_def)

text \<open>
  C8, as the code has it. Once the query for the tracked instruments has succeeded,
  \<^verbatim>\<open>run_once\<close> returns normally whatever fails afterwards for the instruments or for
  the status record. The prices it leaves are those the loop left: writing the status
  record, successful or not, does not touch them, and they are the same for every
  outcome of the status queries. A failed status write shows only as a warning in the
  log. When the query for the tracked instruments raises, the run does not catch it: it
  ends with that exception, before any instrument is processed, and the prices and the
  status record are as they were.
\<close>

theorem run_once_returns:
  "(next_ok 1 (saham_faults w) \<longrightarrow>
      fst (run_once yf now_jkt w) = Inr () \<and>
      harga_saham_harian (snd (run_once yf now_jkt w)) =
        harga_saham_harian (after_loop yf now_jkt w) \<and>
      harga_saham_harian (snd (run_once yf now_jkt (w\<lparr>status_faults := fs\<rparr>))) =
        harga_saham_harian (snd (run_once yf now_jkt w)) \<and>
      (\<forall>rest. status_faults w = True # rest \<longrightarrow>
         (WARNING, Msg_status_failed StoreError) \<in> set (logs (snd (run_once yf now_jkt w))))) \<and>
   (\<not> next_ok 1 (saham_faults w) \<longrightarrow>
      fst (run_once yf now_jkt w) = Inl StoreError \<and>
      harga_saham_harian (snd (run_once yf now_jkt w)) = harga_saham_harian w \<and>
      system_status (snd (run_once yf now_jkt w)) = system_status w \<and>
      history_calls (snd (run_once yf now_jkt w)) = history_calls w)"
proof (intro conjI allI impI)
  assume ok: "next_ok 1 (saham_faults w)"
  show "fst (run_once yf now_jkt w) = Inr ()"
    unfolding run_once_eq [OF ok]
    by (simp split: prod.splits sum.splits)
  show "harga_saham_harian (snd (run_once yf now_jkt w)) =
           harga_saham_harian (after_loop yf now_jkt w)"
    by (rule run_once_harga [OF ok])
  have "next_ok 1 (saham_faults (w\<lparr>status_faults := fs\<rparr>))" using ok by simp
  from run_once_harga [OF this] run_once_harga [OF ok]
  show "harga_saham_harian (snd (run_once yf now_jkt (w\<lparr>status_faults := fs\<rparr>))) =
           harga_saham_harian (snd (run_once yf now_jkt w))"
    by (simp add: after_loop_status_faults)
next
  fix rest
  assume ok: "next_ok 1 (saham_faults w)" and "status_faults w = True # rest"
  then have "status_faults (after_loop yf now_jkt w) = True # rest"
    by (simp add: after_loop_keeps_status_faults)
  from update_system_status_raises [OF this]
  have "fst (update_system_status now_jkt (is_market_hours now_jkt) (after_loop yf now_jkt w)) =
          Inl StoreError" .
  then show "(WARNING, Msg_status_failed StoreError) \<in> set (logs (snd (run_once yf now_jkt w)))"
    unfolding run_once_eq [OF ok]
    by (cases "update_system_status now_jkt (is_market_hours now_jkt) (after_loop yf now_jkt w)")
       (simp add: logging_warning_def)
next
  assume "\<not> next_ok 1 (saham_faults w)"
  then obtain rest where f: "saham_faults w = True # rest"
    by (cases "saham_faults w") (auto simp: next_ok_def)
  show "fst (run_once yf now_jkt w) = Inl StoreError"
    by (rule run_once_loader_raises [OF f])
  from f show "harga_saham_harian (snd (run_once yf now_jkt w)) = harga_saham_harian w"
    by (simp add: run_once_def get_tracked_stocks_def select_saham_tracked_def execute_def
        logging_info_def Let_def)
  from f show "system_status (snd (run_once yf now_jkt w)) = system_status w"
    by (simp add: run_once_def get_tracked_stocks_def select_saham_tracked_def execute_def
        logging_info_def Let_def)
  from f show "history_calls (snd (run_once yf now_jkt w)) = history_calls w"
    by (simp add: run_once_def get_tracked_stocks_def select_saham_tracked_def execute_def
        logging_info_def Let_def)
qed

theorem run_once_returns_witness:
  "next_ok 1 (saham_faults world_batch_fail) \<and>
   status_faults world_batch_fail = [True] \<and>
   fst (run_once yf_example friday_10 world_batch_fail) = Inr () \<and>
   (WARNING, Msg_status_failed StoreError)
     \<in> set (logs (snd (run_once yf_example friday_10 world_batch_fail))) \<and>
   harga_saham_harian (snd (run_once yf_example friday_10 world_batch_fail)) =
     [row_9500, row_5000] \<and>
   harga_saham_harian (snd (run_once yf_example friday_10 world_batch)) = [row_9500, row_5000] \<and>
   \<not> next_ok 1 (saham_faults world_loader_fail) \<and>
   harga_saham_harian (snd (run_once yf_example friday_10 world_loader_fail)) = [] \<and>
   history_calls (snd (run_once yf_example friday_10 world_loader_fail)) = []"
proof -
  have a: "next_ok 1 (saham_faults world_batch)" "next_ok 1 (saham_faults world_batch_fail)"
    "\<not> next_ok 1 (saham_faults world_loader_fail)"
    by (simp_all add: next_ok_def world_batch_fail_def world_loader_fail_def world_batch_def
        empty_world_def)
  have s: "status_faults world_batch_fail = [True]"
    "harga_saham_harian world_loader_fail = []" "history_calls world_loader_fail = []"
    by (simp_all add: world_batch_fail_def world_loader_fail_def world_batch_def
        empty_world_def)
  note ok = run_once_returns [of world_batch yf_example friday_10 "[True]"]
  note fail = run_once_returns [of world_batch_fail yf_example friday_10 "[]"]
  note loader = run_once_returns [of world_loader_fail yf_example friday_10 "[]"]
  show ?thesis
    using ok fail loader a s
    by (simp add: after_loop_batch world_batch_fail_def [symmetric])
qed

text \<open>
  The run does not always return normally: with the query for the tracked instruments
  raising and nothing else failing, it ends with the store's exception.
\<close>

theorem run_once_loader_failure_escapes:
  "saham_faults world_loader_fail = [True] \<and> harga_faults world_loader_fail = [] \<and>
   status_faults world_loader_fail = [] \<and>
   fst (run_once yf_example friday_10 world_loader_fail) = Inl StoreError"
proof -
  have f: "saham_faults world_loader_fail = [True]" "harga_faults world_loader_fail = []"
    "status_faults world_loader_fail = []"
    by (simp_all add: world_loader_fail_def world_batch_def empty_world_def)
  from run_once_loader_raises [OF f(1)] f show ?thesis by simp
qed

end
